theory Spec2Isabelle
  imports Main "HOL-Library.Word"
begin

section \<open>go-ddns: a GoDaddy dynamic DNS updater\<close>

text \<open>
  The repository holds two versions of the updater. The newer one (\<open>runUpdateLoop\<close>,
  \<open>checkAndUpdate\<close> in main.go and the client in godaddy.go) reads the provider's
  record for every domain in every cycle. The older one (\<open>updateRecords\<close>,
  \<open>getDNSEntriesIP\<close>, \<open>updateDNSEntriesIP\<close>) caches the last known address in the
  global \<open>lastIPAddr\<close>. Both are embedded here; where the two versions use one name,
  the older function carries the suffix \<open>_cached\<close>.

  Everything outside the repository is a parameter: the HTTP transport, the Url
  parser inside \<open>http.NewRequestWithContext\<close>, the JSON decoder and
  \<open>time.ParseDuration\<close> are fields of the record \<open>env\<close>. Every request handed to the
  transport is appended to \<open>calls\<close>, every call of the logger to \<open>logs\<close>.
\<close>

subsection \<open>Errors, log entries, requests and responses\<close>

text \<open>
  A Go \<open>error\<close> is either made by a library (\<open>External\<close>, with its message) or by
  \<open>fmt.Errorf\<close>, kept as the format string with its arguments.
\<close>

datatype err = External string | Errorf string "arg list"
  and arg = S string | D int | V err | TimeNow | TimeNext

datatype level = TraceLevel | DebugLevel | InfoLevel | WarnLevel | ErrorLevel | FatalLevel

datatype log_entry = Log level string "arg list"

text \<open>A panic unwinds the goroutine; nothing in the program recovers from it.\<close>

datatype 'a outcome = Return 'a | Panic string

datatype verb = GET | PUT

record GodaddyGetDNSRecordResponse =
  get_Data :: string
  get_Name :: string

record GodaddySetDNSRecordRequest =
  set_Data :: string
  set_TTL :: "64 word"

text \<open>The element type of the anonymous slices of the older version.\<close>

record GetData =
  anon_Data :: string

record PutData =
  put_Name :: string
  put_Data :: string
  put_TTL :: "64 word"

text \<open>
  A request body is kept as the value handed to \<open>json.NewEncoder(&buf).Encode\<close>: the
  bytes the encoder writes are not interpreted by the program.
\<close>

datatype body = NoBody | SetRecords "GodaddySetDNSRecordRequest list" | PutRecords "PutData list"

record request =
  Method :: verb
  Url :: string
  Header :: "(string \<times> string) list"
  ReqBody :: body

text \<open>
  \<open>Body\<close> is what \<open>io.ReadAll\<close> gives on the response body: the bytes or a read
  error. The bytes \<open>ReadAll\<close> returns together with an error, those read before the
  failure, are \<open>ReadAll_partial\<close> of the environment.
\<close>

record response =
  StatusCode :: int
  Body :: "err + string"

record env =
  url_parse :: "string \<Rightarrow> err option"
  client_Do :: "request list \<Rightarrow> request \<Rightarrow> err + response"
  json_Unmarshal :: "string \<Rightarrow> err + GodaddyGetDNSRecordResponse list"
  json_Decode :: "string \<Rightarrow> err + GetData list"
  ReadAll_partial :: "response \<Rightarrow> string"
  ParseDuration :: "string \<Rightarrow> err + int"
  Seconds :: "int \<Rightarrow> 64 word"

text \<open>The package-level variables set by \<open>init\<close>.\<close>

record config =
  updateInterval :: int
  apiKey :: string
  apiSecret :: string
  domains :: "string list"

record state =
  calls :: "request list"
  logs :: "log_entry list"

definition log :: "level \<Rightarrow> string \<Rightarrow> arg list \<Rightarrow> state \<Rightarrow> state" where
  "log l fmt args s = s\<lparr>logs := logs s @ [Log l fmt args]\<rparr>"

definition new_calls :: "state \<Rightarrow> state \<Rightarrow> request list" where
  "new_calls s s' = drop (length (calls s)) (calls s')"

definition new_logs :: "state \<Rightarrow> state \<Rightarrow> log_entry list" where
  "new_logs s s' = drop (length (logs s)) (logs s')"

subsection \<open>Library calls\<close>

text \<open>
  \<open>http.NewRequestWithContext\<close> with a non-nil context and the verb \<open>GET\<close> or
  \<open>PUT\<close> fails exactly when the Url does not parse.
\<close>

definition NewRequestWithContext :: "env \<Rightarrow> verb \<Rightarrow> string \<Rightarrow> body \<Rightarrow> err + request" where
  "NewRequestWithContext env m u b =
     (case url_parse env u of
        Some e \<Rightarrow> Inl e
      | None \<Rightarrow> Inr \<lparr>Method = m, Url = u, Header = [], ReqBody = b\<rparr>)"

definition Header_Set :: "string \<Rightarrow> string \<Rightarrow> request \<Rightarrow> request" where
  "Header_Set k v req = req\<lparr>Header := filter (\<lambda>kv. fst kv \<noteq> k) (Header req) @ [(k, v)]\<rparr>"

definition Header_Add :: "string \<Rightarrow> string \<Rightarrow> request \<Rightarrow> request" where
  "Header_Add k v req = req\<lparr>Header := Header req @ [(k, v)]\<rparr>"

text \<open>
  \<open>json.NewEncoder(&buf).Encode\<close> into a \<open>bytes.Buffer\<close>, for the two slices the
  program encodes. The encoder has no failure on slices of structs of strings and
  integers, so the error branch after it is never taken.
\<close>

definition Encode :: "GodaddySetDNSRecordRequest list \<Rightarrow> err + body" where
  "Encode v = Inr (SetRecords v)"

definition Encode_cached :: "PutData list \<Rightarrow> err + body" where
  "Encode_cached v = Inr (PutRecords v)"

text \<open>\<open>httpClient.Do\<close>: the transport answers from the requests made so far.\<close>

definition Do :: "env \<Rightarrow> request \<Rightarrow> state \<Rightarrow> (err + response) \<times> state" where
  "Do env req s = (client_Do env (calls s) req, s\<lparr>calls := calls s @ [req]\<rparr>)"

text \<open>\<open>strings.TrimRight(s, cutset)\<close> on bytes.\<close>

definition TrimRight :: "string \<Rightarrow> string \<Rightarrow> string" where
  "TrimRight s cutset = rev (dropWhile (\<lambda>c. c \<in> set cutset) (rev s))"

text \<open>\<open>strings.Split(s, sep)\<close> for a separator of one byte.\<close>

fun strings_Split :: "string \<Rightarrow> char \<Rightarrow> string list" where
  "strings_Split [] sep = [[]]"
| "strings_Split (c # cs) sep =
     (if c = sep then [] # strings_Split cs sep
      else (case strings_Split cs sep of
              [] \<Rightarrow> [[c]]
            | f # fs \<Rightarrow> (c # f) # fs))"

definition Getenv :: "(string \<rightharpoonup> string) \<Rightarrow> string \<Rightarrow> string" where
  "Getenv environ k = (case environ k of None \<Rightarrow> [] | Some v \<Rightarrow> v)"

subsection \<open>Startup configuration (\<open>init\<close>, the same in both versions)\<close>

text \<open>
  \<open>log.Fatalf\<close> writes the entry and exits the process: \<open>Inl\<close> carries the fatal
  message. The duration is in nanoseconds.
\<close>

definition init_env :: "env \<Rightarrow> (string \<rightharpoonup> string) \<Rightarrow> log_entry list \<times> (string + config)" where
  "init_env env environ =
     (let interval = Getenv environ ''GD_INTERVAL'';
          (warn, updateInterval) =
             (case ParseDuration env interval of
                Inl err \<Rightarrow>
                  ([Log WarnLevel ''No update interval given, defaulting to 600 seconds.'' []],
                   1000000000 * 600)
              | Inr d \<Rightarrow> ([], d));
          apiKey = Getenv environ ''GD_API_KEY''
      in if apiKey = [] then
           (warn, Inl ''No API Key provided in environment (GD_API_KEY).'')
         else
           let apiSecret = Getenv environ ''GD_API_SECRET''
           in if apiSecret = [] then
                (warn, Inl ''No API Secret provided in environment (GD_API_SECRET).'')
              else
                let domains = strings_Split (Getenv environ ''GD_DOMAINS'') CHR '',''
                in if length domains < 1 then
                     (warn, Inl ''No domains provided in environment (GD_DOMAINS).'')
                   else
                     (warn, Inr \<lparr>updateInterval = updateInterval, apiKey = apiKey,
                                 apiSecret = apiSecret, domains = domains\<rparr>))"

subsection \<open>The GoDaddy client (godaddy.go)\<close>

definition GodaddyBaseUrl :: string where
  "GodaddyBaseUrl = ''https://api.godaddy.com''"

definition GodaddyApiBase :: string where
  "GodaddyApiBase = GodaddyBaseUrl @ ''/v1/domains''"

definition getGDAuthHeader :: "config \<Rightarrow> string" where
  "getGDAuthHeader cfg = ''sso-key '' @ apiKey cfg @ '':'' @ apiSecret cfg"

definition record_url :: "string \<Rightarrow> string" where
  "record_url domain = GodaddyApiBase @ ''/'' @ domain @ ''/records/A/@''"

definition getDomainAtRecordIP ::
  "env \<Rightarrow> config \<Rightarrow> string \<Rightarrow> state \<Rightarrow> (err + string) outcome \<times> state" where
  "getDomainAtRecordIP env cfg domain s =
     (let url = record_url domain in
      case NewRequestWithContext env GET url NoBody of
        Inl err \<Rightarrow> (Return (Inl err), s)
      | Inr req0 \<Rightarrow>
          let req = Header_Add ''Authorization'' (getGDAuthHeader cfg) req0 in
          (case Do env req s of
             (Inl err, s1) \<Rightarrow> (Return (Inl err), s1)
           | (Inr httpRes, s1) \<Rightarrow>
               (case Body httpRes of
                  Inl err \<Rightarrow> (Return (Inl err), s1)
                | Inr httpResBytes \<Rightarrow>
                    if StatusCode httpRes \<noteq> 200 then
                      (Return (Inl (Errorf ''godaddy sent non-ok status code %d, body: %s''
                                      [D (StatusCode httpRes), S httpResBytes])), s1)
                    else
                      (case json_Unmarshal env httpResBytes of
                         Inl err \<Rightarrow> (Return (Inl err), s1)
                       | Inr res \<Rightarrow>
                           (case res of
                              [] \<Rightarrow> (Panic ''index out of range [0] with length 0'', s1)
                            | r # _ \<Rightarrow> (Return (Inr (get_Data r)), s1))))))"

text \<open>The result is Go's \<open>error\<close>: \<open>None\<close> is \<open>nil\<close>.\<close>

definition setDomainAtRecord ::
  "env \<Rightarrow> config \<Rightarrow> string \<Rightarrow> string \<Rightarrow> state \<Rightarrow> err option \<times> state" where
  "setDomainAtRecord env cfg domain ip s =
     (case Encode [\<lparr>set_Data = ip, set_TTL = 600\<rparr>] of
        Inl err \<Rightarrow> (Some err, s)
      | Inr body \<Rightarrow>
          let url = record_url domain in
          (case NewRequestWithContext env PUT url body of
             Inl err \<Rightarrow> (Some err, s)
           | Inr req0 \<Rightarrow>
               let req = Header_Set ''Authorization'' (getGDAuthHeader cfg)
                           (Header_Set ''Content-Type'' ''application/json'' req0) in
               (case Do env req s of
                  (Inl err, s1) \<Rightarrow> (None, s1)
                | (Inr res, s1) \<Rightarrow>
                    if StatusCode res \<noteq> 200 then
                      (case Body res of
                         Inl err \<Rightarrow>
                           (Some (Errorf ''received non-ok status code %d from godaddy, but failed to read body: %v''
                                    [D (StatusCode res), V err]), s1)
                       | Inr body \<Rightarrow>
                           (Some (Errorf ''received non-ok status code %d from godaddy, body: %s''
                                    [D (StatusCode res), S body]), s1))
                    else (None, s1))))"

subsection \<open>The update loop of the newer version (main.go)\<close>

definition getPublicIPAddress :: "env \<Rightarrow> state \<Rightarrow> (err + string) \<times> state" where
  "getPublicIPAddress env s =
     (case NewRequestWithContext env GET ''http://ifconfig.co'' NoBody of
        Inl err \<Rightarrow> (Inl err, s)
      | Inr req \<Rightarrow>
          (case Do env req s of
             (Inl err, s1) \<Rightarrow> (Inl err, s1)
           | (Inr resp, s1) \<Rightarrow>
               (case Body resp of
                  Inl err \<Rightarrow> (Inl err, s1)
                | Inr body \<Rightarrow> (Inr (TrimRight body [CHR 0x0A]), s1))))"

definition checkAndUpdate ::
  "env \<Rightarrow> config \<Rightarrow> string \<Rightarrow> string \<Rightarrow> state \<Rightarrow> err option outcome \<times> state" where
  "checkAndUpdate env cfg domain currentIpAddr s =
     (case getDomainAtRecordIP env cfg domain s of
        (Panic p, s1) \<Rightarrow> (Panic p, s1)
      | (Return (Inl err), s1) \<Rightarrow>
          (Return (Some (Errorf ''failed to get DNS record IP address for domain %s: %v''
                           [S domain, V err])), s1)
      | (Return (Inr godaddyIPAddr), s1) \<Rightarrow>
          if currentIpAddr = godaddyIPAddr then
            (Return None, log InfoLevel ''No update necessary for %s'' [S domain] s1)
          else
            (case setDomainAtRecord env cfg domain currentIpAddr
                    (log DebugLevel ''oldIP: %s; newIP: %s'' [S godaddyIPAddr, S currentIpAddr] s1) of
               (Some err, s2) \<Rightarrow> (Return (Some err), s2)
             | (None, s2) \<Rightarrow> (Return None, s2)))"

text \<open>What \<open>loopFunc\<close> logs after one domain's \<open>checkAndUpdate\<close>.\<close>

definition report :: "err option \<Rightarrow> state \<Rightarrow> state" where
  "report r s =
     (case r of
        Some err \<Rightarrow> log ErrorLevel ''Failed to update DNS records: %v'' [V err] s
      | None \<Rightarrow> log InfoLevel ''Update successful at %v'' [TimeNow] s)"

text \<open>The \<open>for _, domain := range domains\<close> of \<open>loopFunc\<close>.\<close>

fun rangeDomains :: "env \<Rightarrow> config \<Rightarrow> string \<Rightarrow> string list \<Rightarrow> state \<Rightarrow> unit outcome \<times> state" where
  "rangeDomains env cfg currIPAddr [] s = (Return (), s)"
| "rangeDomains env cfg currIPAddr (domain # rest) s =
     (case checkAndUpdate env cfg domain currIPAddr s of
        (Panic p, s1) \<Rightarrow> (Panic p, s1)
      | (Return r, s1) \<Rightarrow> rangeDomains env cfg currIPAddr rest (report r s1))"

definition loopFunc :: "env \<Rightarrow> config \<Rightarrow> state \<Rightarrow> unit outcome \<times> state" where
  "loopFunc env cfg s =
     (case getPublicIPAddress env s of
        (Inl err, s1) \<Rightarrow>
          (Return (), log ErrorLevel ''failed to get public IP address: %v'' [V err] s1)
      | (Inr currIPAddr, s1) \<Rightarrow>
          (case rangeDomains env cfg currIPAddr (domains cfg) s1 of
             (Panic p, s2) \<Rightarrow> (Panic p, s2)
           | (Return u, s2) \<Rightarrow>
               (Return (), log InfoLevel ''Next update at %v'' [TimeNext] s2)))"

subsection \<open>The older version with the cached address (main.go, first part)\<close>

definition getPublicIPAddress_cached :: "env \<Rightarrow> state \<Rightarrow> (err + string) \<times> state" where
  "getPublicIPAddress_cached env s =
     (case NewRequestWithContext env GET ''https://api.ipify.org'' NoBody of
        Inl err \<Rightarrow> (Inl err, s)
      | Inr req \<Rightarrow>
          (case Do env req s of
             (Inl err, s1) \<Rightarrow> (Inl err, s1)
           | (Inr res, s1) \<Rightarrow>
               (case Body res of
                  Inl err \<Rightarrow> (Inl err, s1)
                | Inr body \<Rightarrow> (Inr body, s1))))"

text \<open>
  One round of the loop of \<open>getDNSEntriesIP\<close> up to the read of \<open>data[0].Data\<close>:
  the request, the transport call, the decoding and the index.
\<close>

definition getDNSEntry ::
  "env \<Rightarrow> config \<Rightarrow> string \<Rightarrow> state \<Rightarrow> (err + string) outcome \<times> state" where
  "getDNSEntry env cfg domain s =
     (case NewRequestWithContext env GET
             (''https://api.godaddy.com/v1/domains/'' @ domain @ ''/records/A/@'') NoBody of
        Inl err \<Rightarrow> (Return (Inl err), s)
      | Inr req0 \<Rightarrow>
          let req = Header_Set ''Authorization'' (getGDAuthHeader cfg) req0 in
          (case Do env req s of
             (Inl err, s1) \<Rightarrow> (Return (Inl err), s1)
           | (Inr resp, s1) \<Rightarrow>
               (case (case Body resp of Inl err \<Rightarrow> Inl err | Inr bytes \<Rightarrow> json_Decode env bytes) of
                  Inl err \<Rightarrow> (Return (Inl err), s1)
                | Inr data \<Rightarrow>
                    (case data of
                       [] \<Rightarrow> (Panic ''index out of range [0] with length 0'', s1)
                     | d # _ \<Rightarrow> (Return (Inr (anon_Data d)), s1)))))"

fun getDNSEntriesIP_range ::
  "env \<Rightarrow> config \<Rightarrow> string \<Rightarrow> string list \<Rightarrow> state \<Rightarrow> (err + string) outcome \<times> state" where
  "getDNSEntriesIP_range env cfg retval [] s = (Return (Inr retval), s)"
| "getDNSEntriesIP_range env cfg retval (domain # rest) s =
     (case getDNSEntry env cfg domain s of
        (Panic p, s1) \<Rightarrow> (Panic p, s1)
      | (Return (Inl err), s1) \<Rightarrow> (Return (Inl err), s1)
      | (Return (Inr data0), s1) \<Rightarrow>
          if retval \<noteq> data0 \<and> retval \<noteq> [] then (Return (Inr ''0.0.0.0''), s1)
          else getDNSEntriesIP_range env cfg data0 rest s1)"

definition getDNSEntriesIP :: "env \<Rightarrow> config \<Rightarrow> state \<Rightarrow> (err + string) outcome \<times> state" where
  "getDNSEntriesIP env cfg s = getDNSEntriesIP_range env cfg [] (domains cfg) s"

definition put_request_cached :: "env \<Rightarrow> config \<Rightarrow> string \<Rightarrow> string \<Rightarrow> request" where
  "put_request_cached env cfg ipaddr domain =
     Header_Set ''Authorization'' (getGDAuthHeader cfg)
       (Header_Set ''Content-Type'' ''application/json''
          \<lparr>Method = PUT,
           Url = ''https://api.godaddy.com/v1/domains/'' @ domain @ ''/records/A'',
           Header = [],
           ReqBody = PutRecords [\<lparr>put_Name = ''@'', put_Data = ipaddr,
                                   put_TTL = Seconds env (updateInterval cfg)\<rparr>]\<rparr>)"

text \<open>
  The loop of \<open>updateDNSEntriesIP\<close>. \<open>ioutil.ReadAll\<close>'s error is dropped there
  (\<open>body, _ := ioutil.ReadAll(res.Body)\<close>): when the read fails, the message is
  formatted with the bytes read before the failure.
\<close>

fun updateDNSEntriesIP_range ::
  "env \<Rightarrow> config \<Rightarrow> string \<Rightarrow> string list \<Rightarrow> state \<Rightarrow> err option \<times> state" where
  "updateDNSEntriesIP_range env cfg ipaddr [] s = (None, s)"
| "updateDNSEntriesIP_range env cfg ipaddr (domain # rest) s =
     (case Encode_cached [\<lparr>put_Name = ''@'', put_Data = ipaddr,
                              put_TTL = Seconds env (updateInterval cfg)\<rparr>] of
        Inl err \<Rightarrow> (Some err, s)
      | Inr buf \<Rightarrow>
          (case NewRequestWithContext env PUT
                  (''https://api.godaddy.com/v1/domains/'' @ domain @ ''/records/A'') buf of
             Inl err \<Rightarrow> (Some err, s)
           | Inr req0 \<Rightarrow>
               let req = Header_Set ''Authorization'' (getGDAuthHeader cfg)
                           (Header_Set ''Content-Type'' ''application/json'' req0) in
               (case Do env req s of
                  (Inl err, s1) \<Rightarrow> (Some err, s1)
                | (Inr res, s1) \<Rightarrow>
                    if StatusCode res \<noteq> 200 then
                      (let body = (case Body res of Inl _ \<Rightarrow> ReadAll_partial env res | Inr b \<Rightarrow> b) in
                       (Some (Errorf ''updating dns record for domain %s failed with status code %d: %s''
                                [S domain, D (StatusCode res), S body]), s1))
                    else updateDNSEntriesIP_range env cfg ipaddr rest s1)))"

definition updateDNSEntriesIP :: "env \<Rightarrow> config \<Rightarrow> string \<Rightarrow> state \<Rightarrow> err option \<times> state" where
  "updateDNSEntriesIP env cfg ipaddr s = updateDNSEntriesIP_range env cfg ipaddr (domains cfg) s"

text \<open>
  \<open>updateRecords\<close> from the comparison on (lines 122 to 141), with the global
  \<open>lastIPAddr\<close> passed in and returned.
\<close>

definition updateRecords_compare ::
  "env \<Rightarrow> config \<Rightarrow> string \<Rightarrow> state \<Rightarrow> err option outcome \<times> string \<times> state" where
  "updateRecords_compare env cfg lastIPAddr s =
     (case getPublicIPAddress_cached env s of
        (Inl err, s1) \<Rightarrow>
          (Return (Some (Errorf ''failed to get public Data address: %v'' [V err])), lastIPAddr, s1)
      | (Inr currIPAddr, s1) \<Rightarrow>
          if currIPAddr = lastIPAddr then
            (Return None, lastIPAddr,
             log DebugLevel ''Address still the same - no update necessary'' [] s1)
          else
            (case updateDNSEntriesIP env cfg currIPAddr
                    (log DebugLevel ''oldIP: %s; newIP: %s'' [S lastIPAddr, S currIPAddr] s1) of
               (Some err, s2) \<Rightarrow> (Return (Some err), lastIPAddr, s2)
             | (None, s2) \<Rightarrow> (Return None, currIPAddr, s2)))"

definition updateRecords ::
  "env \<Rightarrow> config \<Rightarrow> string \<Rightarrow> state \<Rightarrow> err option outcome \<times> string \<times> state" where
  "updateRecords env cfg lastIPAddr s =
     (if lastIPAddr = [] then
        (case getDNSEntriesIP env cfg s of
           (Panic p, s1) \<Rightarrow> (Panic p, lastIPAddr, s1)
         | (Return (Inl err), s1) \<Rightarrow>
             (Return (Some (Errorf ''failed to get current DNS IP address: %v'' [V err])), [], s1)
         | (Return (Inr ip), s1) \<Rightarrow> updateRecords_compare env cfg ip s1)
      else updateRecords_compare env cfg lastIPAddr s)"

subsection \<open>Notions used to state the properties\<close>

text \<open>The requests the newer version hands to the transport.\<close>

definition ip_request :: request where
  "ip_request = \<lparr>Method = GET, Url = ''http://ifconfig.co'', Header = [], ReqBody = NoBody\<rparr>"

definition get_request :: "config \<Rightarrow> string \<Rightarrow> request" where
  "get_request cfg domain =
     \<lparr>Method = GET, Url = record_url domain,
      Header = [(''Authorization'', getGDAuthHeader cfg)], ReqBody = NoBody\<rparr>"

definition put_request :: "config \<Rightarrow> string \<Rightarrow> string \<Rightarrow> request" where
  "put_request cfg domain ip =
     \<lparr>Method = PUT, Url = record_url domain,
      Header = [(''Content-Type'', ''application/json''), (''Authorization'', getGDAuthHeader cfg)],
      ReqBody = SetRecords [\<lparr>set_Data = ip, set_TTL = 600\<rparr>]\<rparr>"

text \<open>
  The update decision in the words of the specification:
  \<open>needsUpdate(lastKnown, current)\<close> is \<open>lastKnown != current\<close>.
\<close>

definition needsUpdate_spec :: "string \<Rightarrow> string \<Rightarrow> bool" where
  "needsUpdate_spec lastKnown current = (lastKnown \<noteq> current)"

text \<open>The entry \<open>loopFunc\<close> logs for the result of one domain, and the test for such entries.\<close>

definition report_entry :: "err option \<Rightarrow> log_entry" where
  "report_entry r =
     (case r of
        Some err \<Rightarrow> Log ErrorLevel ''Failed to update DNS records: %v'' [V err]
      | None \<Rightarrow> Log InfoLevel ''Update successful at %v'' [TimeNow])"

fun is_report :: "log_entry \<Rightarrow> bool" where
  "is_report (Log l fmt args) =
     (fmt = ''Failed to update DNS records: %v'' \<or> fmt = ''Update successful at %v'')"

definition reports :: "state \<Rightarrow> state \<Rightarrow> log_entry list" where
  "reports s s' = filter is_report (new_logs s s')"

text \<open>
  The record values the domains report when the older version reads them one after
  the other, from state \<open>s\<close> on; \<open>None\<close> when a read fails or panics.
\<close>

fun reported_IPs :: "env \<Rightarrow> config \<Rightarrow> string list \<Rightarrow> state \<Rightarrow> string list option" where
  "reported_IPs env cfg [] s = Some []"
| "reported_IPs env cfg (domain # rest) s =
     (case getDNSEntry env cfg domain s of
        (Return (Inr ip), s1) \<Rightarrow> map_option ((#) ip) (reported_IPs env cfg rest s1)
      | _ \<Rightarrow> None)"

text \<open>The requests of \<open>updateDNSEntriesIP\<close> for a list of domains are answered with status 200.\<close>

fun writes_confirmed :: "env \<Rightarrow> request list \<Rightarrow> request list \<Rightarrow> bool" where
  "writes_confirmed env hist [] = True"
| "writes_confirmed env hist (req # reqs) =
     ((case client_Do env hist req of
         Inl err \<Rightarrow> False
       | Inr res \<Rightarrow> StatusCode res = 200)
      \<and> writes_confirmed env (hist @ [req]) reqs)"

subsection \<open>Example environments\<close>

definition empty_state :: state where
  "empty_state = \<lparr>calls = [], logs = []\<rparr>"

definition example_cfg :: "string list \<Rightarrow> config" where
  "example_cfg ds = \<lparr>updateInterval = 600000000000, apiKey = ''key'', apiSecret = ''secret'',
                     domains = ds\<rparr>"

text \<open>An environment in which every transport call fails.\<close>

definition transport_down :: env where
  "transport_down =
     \<lparr>url_parse = (\<lambda>u. None),
      client_Do = (\<lambda>hist req. Inl (External ''dial tcp4: i/o timeout'')),
      json_Unmarshal = (\<lambda>b. Inl (External ''unexpected end of JSON input'')),
      json_Decode = (\<lambda>b. Inl (External ''EOF'')),
      ReadAll_partial = (\<lambda>res. []),
      ParseDuration = (\<lambda>d. Inl (External ''time: invalid duration'')),
      Seconds = (\<lambda>d. word_of_int (d div 1000000000))\<rparr>"

text \<open>
  A provider with four zones: \<open>a.example\<close> holds 1.2.3.4, \<open>b.example\<close> holds 5.6.7.8,
  \<open>nodata.example\<close> holds a record without \<open>data\<close>, \<open>empty.example\<close> answers with an
  empty array; \<open>down.example\<close> cannot be reached and writes to \<open>denied.example\<close> are
  refused. The echo services answer 5.6.7.8, the newer one with a space and a newline
  after it.
\<close>

definition example_Do :: "request list \<Rightarrow> request \<Rightarrow> err + response" where
  \<open>example_Do hist req =
     (if Url req = ''http://ifconfig.co'' then
        Inr \<lparr>StatusCode = 200, Body = Inr (''5.6.7.8 '' @ [CHR 0x0A])\<rparr>
      else if Url req = ''https://api.ipify.org'' then
        Inr \<lparr>StatusCode = 200, Body = Inr ''5.6.7.8''\<rparr>
      else if Url req = record_url ''down.example'' then
        Inl (External ''connection reset by peer'')
      else if Method req = PUT then
        (if Url req = ''https://api.godaddy.com/v1/domains/denied.example/records/A''
            \<or> Url req = record_url ''denied.example''
         then Inr \<lparr>StatusCode = 403, Body = Inr ''ACCESS_DENIED''\<rparr>
         else Inr \<lparr>StatusCode = 200, Body = Inr []\<rparr>)
      else if Url req = record_url ''a.example'' \<or> Url req = record_url ''denied.example'' then
        Inr \<lparr>StatusCode = 200, Body = Inr ''[{"data":"1.2.3.4","name":"@"}]''\<rparr>
      else if Url req = record_url ''b.example'' then
        Inr \<lparr>StatusCode = 200, Body = Inr ''[{"data":"5.6.7.8","name":"@"}]''\<rparr>
      else if Url req = record_url ''nodata.example'' then
        Inr \<lparr>StatusCode = 200, Body = Inr ''[{"name":"@"}]''\<rparr>
      else if Url req = record_url ''empty.example'' then
        Inr \<lparr>StatusCode = 200, Body = Inr ''[]''\<rparr>
      else Inr \<lparr>StatusCode = 404, Body = Inr ''NOT_FOUND''\<rparr>)\<close>

definition example_Unmarshal :: "string \<Rightarrow> err + GodaddyGetDNSRecordResponse list" where
  \<open>example_Unmarshal b =
     (if b = ''[{"data":"1.2.3.4","name":"@"}]'' then Inr [\<lparr>get_Data = ''1.2.3.4'', get_Name = ''@''\<rparr>]
      else if b = ''[{"data":"5.6.7.8","name":"@"}]'' then Inr [\<lparr>get_Data = ''5.6.7.8'', get_Name = ''@''\<rparr>]
      else if b = ''[{"name":"@"}]'' then Inr [\<lparr>get_Data = [], get_Name = ''@''\<rparr>]
      else if b = ''[]'' then Inr []
      else Inl (External ''json: cannot unmarshal''))\<close>

definition example_env :: env where
  "example_env =
     \<lparr>url_parse = (\<lambda>u. None),
      client_Do = example_Do,
      json_Unmarshal = example_Unmarshal,
      json_Decode = (\<lambda>b. map_sum id (map (\<lambda>r. \<lparr>anon_Data = get_Data r\<rparr>)) (example_Unmarshal b)),
      ReadAll_partial = (\<lambda>res. []),
      ParseDuration = (\<lambda>d. Inl (External ''time: invalid duration'')),
      Seconds = (\<lambda>d. word_of_int (d div 1000000000))\<rparr>"

text \<open>The same provider behind a decoder that never yields an empty array.\<close>

definition strict_env :: env where
  "strict_env =
     example_env\<lparr>json_Unmarshal :=
       (\<lambda>b. case example_Unmarshal b of
               Inr [] \<Rightarrow> Inl (External ''json: empty array'')
             | r \<Rightarrow> r)\<rparr>"

text \<open>An echo service that answers every request with the given body.\<close>

definition echo_env :: "string \<Rightarrow> env" where
  "echo_env body =
     example_env\<lparr>client_Do := (\<lambda>hist req. Inr \<lparr>StatusCode = 200, Body = Inr body\<rparr>)\<rparr>"


text \<open>The example provider with a transport that fails on every write.\<close>

definition write_down_env :: env where
  "write_down_env =
     example_env\<lparr>client_Do := (\<lambda>hist req.
       if Method req = PUT then Inl (External ''dial tcp4: i/o timeout'')
       else example_Do hist req)\<rparr>"

section \<open>Properties\<close>

subsection \<open>Startup configuration\<close>

lemma strings_Split_nonempty: "strings_Split s sep \<noteq> []"
  by (induction s) (auto split: list.splits)

text \<open>
  The check \<open>len(domains) < 1\<close> of \<open>init\<close> can never fire: whatever the environment
  holds, \<open>init\<close> does not stop with the message about missing domains.
\<close>

lemma init_env_never_rejects_domains:
  "snd (init_env env environ) \<noteq> Inl ''No domains provided in environment (GD_DOMAINS).''"
  using strings_Split_nonempty[of "Getenv environ ''GD_DOMAINS''" "CHR '',''"]
  by (auto simp: init_env_def Let_def split: sum.splits prod.splits)

text \<open>
  Claim C2. The specification lets startup fail when the domain list is empty. In the
  code, with key and secret set and \<open>GD_DOMAINS\<close> absent, or set to the empty string,
  \<open>init\<close> does not exit: \<open>strings.Split\<close> yields the one-element list holding the
  empty string, and the updater starts with the single domain \<open>""\<close>.
\<close>

theorem init_env_empty_domain_list_starts:
  "snd (init_env transport_down [''GD_API_KEY'' \<mapsto> ''key'', ''GD_API_SECRET'' \<mapsto> ''secret''])
     = Inr \<lparr>updateInterval = 600000000000, apiKey = ''key'', apiSecret = ''secret'', domains = [[]]\<rparr>
   \<and> snd (init_env transport_down
            [''GD_API_KEY'' \<mapsto> ''key'', ''GD_API_SECRET'' \<mapsto> ''secret'', ''GD_DOMAINS'' \<mapsto> []])
     = Inr \<lparr>updateInterval = 600000000000, apiKey = ''key'', apiSecret = ''secret'', domains = [[]]\<rparr>"
  by (simp add: init_env_def Getenv_def transport_down_def)

subsection \<open>The client, step by step\<close>

lemma setDomainAtRecord_unfold:
  "setDomainAtRecord env cfg domain ip s =
     (case url_parse env (record_url domain) of
        Some err \<Rightarrow> (Some err, s)
      | None \<Rightarrow>
         (case client_Do env (calls s) (put_request cfg domain ip) of
            Inl err \<Rightarrow> (None, s\<lparr>calls := calls s @ [put_request cfg domain ip]\<rparr>)
          | Inr res \<Rightarrow>
              (if StatusCode res \<noteq> 200 then
                 (case Body res of
                    Inl err \<Rightarrow> Some (Errorf ''received non-ok status code %d from godaddy, but failed to read body: %v''
                               [D (StatusCode res), V err])
                  | Inr body \<Rightarrow> Some (Errorf ''received non-ok status code %d from godaddy, body: %s''
                               [D (StatusCode res), S body]))
               else None, s\<lparr>calls := calls s @ [put_request cfg domain ip]\<rparr>)))"
  by (auto simp: setDomainAtRecord_def Encode_def NewRequestWithContext_def Header_Set_def
      put_request_def Do_def Let_def
      split: option.splits sum.splits)

lemma getDomainAtRecordIP_unfold:
  "getDomainAtRecordIP env cfg domain s =
     (case url_parse env (record_url domain) of
        Some err \<Rightarrow> (Return (Inl err), s)
      | None \<Rightarrow>
         (case client_Do env (calls s) (get_request cfg domain) of
            Inl err \<Rightarrow> Return (Inl err)
          | Inr httpRes \<Rightarrow>
              (case Body httpRes of
                 Inl err \<Rightarrow> Return (Inl err)
               | Inr httpResBytes \<Rightarrow>
                   if StatusCode httpRes \<noteq> 200 then
                     Return (Inl (Errorf ''godaddy sent non-ok status code %d, body: %s''
                                    [D (StatusCode httpRes), S httpResBytes]))
                   else
                     (case json_Unmarshal env httpResBytes of
                        Inl err \<Rightarrow> Return (Inl err)
                      | Inr res \<Rightarrow>
                          (case res of
                             [] \<Rightarrow> Panic ''index out of range [0] with length 0''
                           | r # _ \<Rightarrow> Return (Inr (get_Data r))))),
          s\<lparr>calls := calls s @ [get_request cfg domain]\<rparr>))"
  by (auto simp: getDomainAtRecordIP_def NewRequestWithContext_def Header_Add_def get_request_def Do_def Let_def
      split: option.splits sum.splits list.splits)

subsection \<open>A failing transport on the write\<close>

text \<open>
  Claim C1. The specification wants a transport failure of the record write to come
  back as an error. In the code the branch after \<open>httpClient.Do\<close> returns \<open>nil\<close>:
  with a transport that fails on every call, for every domain and address the write
  is attempted, fails, and \<open>setDomainAtRecord\<close> reports success.
\<close>

theorem setDomainAtRecord_transport_failure_returns_nil:
  "client_Do transport_down (calls s) (put_request cfg domain ip) = Inl (External ''dial tcp4: i/o timeout'')
   \<and> setDomainAtRecord transport_down cfg domain ip s
       = (None, s\<lparr>calls := calls s @ [put_request cfg domain ip]\<rparr>)"
  by (simp add: setDomainAtRecord_unfold) (simp add: transport_down_def)

text \<open>The same in every environment: a transport error of the write is dropped.\<close>

lemma setDomainAtRecord_ignores_transport_error:
  "url_parse env (record_url domain) = None \<Longrightarrow>
   client_Do env (calls s) (put_request cfg domain ip) = Inl err \<Longrightarrow>
   fst (setDomainAtRecord env cfg domain ip s) = None"
  by (simp add: setDomainAtRecord_unfold)

text \<open>A status other than 200 comes back as an error that carries the response body.\<close>

lemma setDomainAtRecord_non_ok_status:
  "url_parse env (record_url domain) = None \<Longrightarrow>
   client_Do env (calls s) (put_request cfg domain ip) = Inr res \<Longrightarrow>
   StatusCode res \<noteq> 200 \<Longrightarrow> Body res = Inr body \<Longrightarrow>
   fst (setDomainAtRecord env cfg domain ip s)
     = Some (Errorf ''received non-ok status code %d from godaddy, body: %s''
               [D (StatusCode res), S body])"
  by (simp add: setDomainAtRecord_unfold)

subsection \<open>Requests and log entries of the client\<close>

lemmas example_urls = record_url_def GodaddyApiBase_def GodaddyBaseUrl_def

lemma new_calls_append [simp]: "calls s' = calls s @ xs \<Longrightarrow> new_calls s s' = xs"
  by (simp add: new_calls_def)

lemma new_logs_append [simp]: "logs s' = logs s @ xs \<Longrightarrow> new_logs s s' = xs"
  by (simp add: new_logs_def)

lemma getDomainAtRecordIP_snd:
  "logs (snd (getDomainAtRecordIP env cfg domain s)) = logs s \<and>
   calls (snd (getDomainAtRecordIP env cfg domain s))
     = calls s @ (case url_parse env (record_url domain) of
                    None \<Rightarrow> [get_request cfg domain] | Some e \<Rightarrow> [])"
  by (simp add: getDomainAtRecordIP_unfold split: option.splits)

lemma getDomainAtRecordIP_calls:
  assumes "getDomainAtRecordIP env cfg domain s = (r, s1)"
  shows "logs s1 = logs s"
    and "calls s1 = calls s @ (case url_parse env (record_url domain) of
                                 None \<Rightarrow> [get_request cfg domain] | Some e \<Rightarrow> [])"
  using getDomainAtRecordIP_snd[of env cfg domain s] assms by simp_all


lemma setDomainAtRecord_snd:
  "logs (snd (setDomainAtRecord env cfg domain ip s)) = logs s \<and>
   calls (snd (setDomainAtRecord env cfg domain ip s))
     = calls s @ (case url_parse env (record_url domain) of
                    None \<Rightarrow> [put_request cfg domain ip] | Some e \<Rightarrow> [])"
  by (simp add: setDomainAtRecord_unfold split: option.splits sum.splits)

lemma setDomainAtRecord_calls:
  assumes "setDomainAtRecord env cfg domain ip s = (r, s1)"
  shows "logs s1 = logs s"
    and "calls s1 = calls s @ (case url_parse env (record_url domain) of
                                 None \<Rightarrow> [put_request cfg domain ip] | Some e \<Rightarrow> [])"
  using setDomainAtRecord_snd[of env cfg domain ip s] assms by simp_all

subsection \<open>The empty array\<close>

text \<open>
  Claim C9. \<open>getDomainAtRecordIP\<close> reads \<open>res[0]\<close> without a length check: when the
  provider answers 200 and the body decodes to an empty array, the function returns
  neither an address nor an error value; the index is out of range and it panics,
  after the one read request.
\<close>
theorem getDomainAtRecordIP_empty_array_panics:
  assumes "url_parse env (record_url domain) = None"
    and "client_Do env (calls s) (get_request cfg domain) = Inr httpRes"
    and "StatusCode httpRes = 200"
    and "Body httpRes = Inr bytes"
    and "json_Unmarshal env bytes = Inr []"
  shows "getDomainAtRecordIP env cfg domain s
           = (Panic ''index out of range [0] with length 0'',
              s\<lparr>calls := calls s @ [get_request cfg domain]\<rparr>)
         \<and> (\<forall>r. fst (getDomainAtRecordIP env cfg domain s) \<noteq> Return r)"
  using assms by (simp add: getDomainAtRecordIP_unfold)

theorem getDomainAtRecordIP_empty_array_panics_witness:
  "getDomainAtRecordIP example_env (example_cfg [''empty.example'']) ''empty.example'' empty_state
     = (Panic ''index out of range [0] with length 0'',
        \<lparr>calls = [get_request (example_cfg [''empty.example'']) ''empty.example''], logs = []\<rparr>)"
proof -
  let ?cfg = "example_cfg [''empty.example'']"
  let ?res = "\<lparr>StatusCode = 200, Body = Inr ''[]''\<rparr>"
  have u: "url_parse example_env (record_url ''empty.example'') = None"
    by (simp add: example_env_def)
  have d: "client_Do example_env (calls empty_state) (get_request ?cfg ''empty.example'') = Inr ?res"
    by (simp add: example_env_def example_Do_def get_request_def record_url_def
        GodaddyApiBase_def GodaddyBaseUrl_def)
  have j: "json_Unmarshal example_env ''[]'' = Inr []"
    by (simp add: example_env_def example_Unmarshal_def)
  from getDomainAtRecordIP_empty_array_panics[OF u d _ _ j]
  show ?thesis by (simp add: empty_state_def)
qed

text \<open>The older version reads \<open>data[0]\<close> in the same way, and a panic ends \<open>checkAndUpdate\<close>.\<close>

lemma getDNSEntry_empty_array_panics:
  assumes "url_parse env (''https://api.godaddy.com/v1/domains/'' @ domain @ ''/records/A/@'') = None"
    and "Do env (Header_Set ''Authorization'' (getGDAuthHeader cfg)
            \<lparr>Method = GET, Url = ''https://api.godaddy.com/v1/domains/'' @ domain @ ''/records/A/@'',
             Header = [], ReqBody = NoBody\<rparr>) s = (Inr resp, s1)"
    and "Body resp = Inr bytes"
    and "json_Decode env bytes = Inr []"
  shows "getDNSEntry env cfg domain s = (Panic ''index out of range [0] with length 0'', s1)"
  using assms by (simp add: getDNSEntry_def NewRequestWithContext_def)

lemma checkAndUpdate_panics:
  "getDomainAtRecordIP env cfg domain s = (Panic p, s1) \<Longrightarrow>
   checkAndUpdate env cfg domain ip s = (Panic p, s1)"
  by (simp add: checkAndUpdate_def)

subsection \<open>The public address\<close>

lemma getPublicIPAddress_unfold:
  "getPublicIPAddress env s =
     (case url_parse env ''http://ifconfig.co'' of
        Some err \<Rightarrow> (Inl err, s)
      | None \<Rightarrow>
          (case client_Do env (calls s) ip_request of
             Inl err \<Rightarrow> Inl err
           | Inr resp \<Rightarrow>
               (case Body resp of
                  Inl err \<Rightarrow> Inl err
                | Inr body \<Rightarrow> Inr (TrimRight body [CHR 0x0A])),
           s\<lparr>calls := calls s @ [ip_request]\<rparr>))"
  by (auto simp: getPublicIPAddress_def NewRequestWithContext_def ip_request_def Do_def
      split: option.splits sum.splits)


lemma TrimRight_single:
  "\<exists>n. s = TrimRight s [c] @ replicate n c \<and> (TrimRight s [c] \<noteq> [] \<longrightarrow> last (TrimRight s [c]) \<noteq> c)"
proof -
  let ?P = "\<lambda>x. x \<in> set [c]"
  let ?t = "takeWhile ?P (rev s)"
  let ?d = "dropWhile ?P (rev s)"
  have tk: "?t = replicate (length ?t) c"
    by (rule replicate_length_same[symmetric]) (auto dest: set_takeWhileD)
  have "rev s = ?t @ ?d" by simp
  then have "s = rev ?d @ rev ?t" by (metis rev_append rev_rev_ident)
  also have "rev ?t = replicate (length ?t) c" by (subst tk) simp
  finally have a: "s = TrimRight s [c] @ replicate (length ?t) c" by (simp add: TrimRight_def)
  have b: "TrimRight s [c] \<noteq> [] \<longrightarrow> last (TrimRight s [c]) \<noteq> c"
  proof
    assume "TrimRight s [c] \<noteq> []"
    then have ne: "?d \<noteq> []" by (simp add: TrimRight_def)
    then have "\<not> ?P (hd ?d)" by (rule hd_dropWhile)
    moreover have "last (TrimRight s [c]) = hd ?d" using ne by (simp add: TrimRight_def last_rev)
    ultimately show "last (TrimRight s [c]) \<noteq> c" by simp
  qed
  from a b show ?thesis by blast
qed

text \<open>
  Claim C8, as stated, asks for trailing whitespace to be stripped. The echo service
  of the example answers \<open>"5.6.7.8 \n"\<close>; the resolver returns \<open>"5.6.7.8 "\<close>, with
  the trailing space.
\<close>
theorem getPublicIPAddress_keeps_other_whitespace:
  "client_Do example_env (calls empty_state) ip_request
     = Inr \<lparr>StatusCode = 200, Body = Inr (''5.6.7.8 '' @ [CHR 0x0A])\<rparr>
   \<and> fst (getPublicIPAddress example_env empty_state) = Inr ''5.6.7.8 ''"
  by (simp add: getPublicIPAddress_unfold example_env_def example_Do_def ip_request_def TrimRight_def)

text \<open>
  Claim C8, amended. For every body the echo service returns, the resolver returns the
  body without its trailing newline characters: the body is the result followed by
  newlines only, and the result does not end in a newline. Other trailing whitespace
  stays.
\<close>
theorem getPublicIPAddress_strips_trailing_newlines:
  assumes "url_parse env ''http://ifconfig.co'' = None"
    and "client_Do env (calls s) ip_request = Inr resp"
    and "Body resp = Inr body"
  shows "\<exists>ip n. fst (getPublicIPAddress env s) = Inr ip
           \<and> ip = TrimRight body [CHR 0x0A]
           \<and> body = ip @ replicate n (CHR 0x0A)
           \<and> (ip \<noteq> [] \<longrightarrow> last ip \<noteq> CHR 0x0A)"
  using assms TrimRight_single[of body "CHR 0x0A"]
  by (auto simp: getPublicIPAddress_unfold)

theorem getPublicIPAddress_strips_trailing_newlines_witness:
  "fst (getPublicIPAddress (echo_env (''1.2.3.4'' @ [CHR 0x0A])) empty_state) = Inr ''1.2.3.4''"
proof -
  let ?env = "echo_env (''1.2.3.4'' @ [CHR 0x0A])"
  have u: "url_parse ?env ''http://ifconfig.co'' = None"
    by (simp add: echo_env_def example_env_def)
  have d: "client_Do ?env (calls empty_state) ip_request
             = Inr \<lparr>StatusCode = 200, Body = Inr (''1.2.3.4'' @ [CHR 0x0A])\<rparr>"
    by (simp add: echo_env_def)
  from getPublicIPAddress_strips_trailing_newlines[OF u d]
  have "fst (getPublicIPAddress ?env empty_state)
          = Inr (TrimRight (''1.2.3.4'' @ [CHR 0x0A]) [CHR 0x0A])"
    by simp
  then show ?thesis by (simp add: TrimRight_def)
qed

subsection \<open>The update decision and the write\<close>

text \<open>
  Claim C4. The update decision is the inequality test on the two address strings:
  once the record has been read, \<open>checkAndUpdate\<close> goes on to the write exactly when
  \<open>needsUpdate\<close> of the specification holds of the record's address and the current
  one; \<open>needsUpdate A B\<close> is true for all distinct \<open>A\<close>, \<open>B\<close>, and \<open>needsUpdate A A\<close>
  is false.
\<close>
theorem checkAndUpdate_decides_by_needsUpdate:
  assumes "getDomainAtRecordIP env cfg domain s = (Return (Inr godaddyIPAddr), s1)"
  shows "checkAndUpdate env cfg domain currentIpAddr s =
           (if needsUpdate_spec godaddyIPAddr currentIpAddr then
              (case setDomainAtRecord env cfg domain currentIpAddr
                      (log DebugLevel ''oldIP: %s; newIP: %s'' [S godaddyIPAddr, S currentIpAddr] s1) of
                 (r, s2) \<Rightarrow> (Return r, s2))
            else (Return None, log InfoLevel ''No update necessary for %s'' [S domain] s1))
         \<and> (\<forall>A B. A \<noteq> B \<longrightarrow> needsUpdate_spec A B)
         \<and> (\<forall>A. \<not> needsUpdate_spec A A)"
  using assms
  by (auto simp: checkAndUpdate_def needsUpdate_spec_def split: prod.splits option.splits)


subsection \<open>One cycle\<close>



lemma checkAndUpdate_logs:
  "\<exists>ex. logs (snd (checkAndUpdate env cfg domain ip s)) = logs s @ ex \<and> filter is_report ex = []"
proof -
  obtain r s1 where g: "getDomainAtRecordIP env cfg domain s = (r, s1)"
    by (cases "getDomainAtRecordIP env cfg domain s")
  note l1 = getDomainAtRecordIP_calls(1)[OF g]
  show ?thesis
  proof (cases r)
    case (Panic p)
    with g l1 show ?thesis by (simp add: checkAndUpdate_def)
  next
    case (Return v)
    show ?thesis
    proof (cases v)
      case (Inl e)
      with Return g l1 show ?thesis by (simp add: checkAndUpdate_def)
    next
      case (Inr recordIP)
      show ?thesis
      proof (cases "ip = recordIP")
        case True
        with Return Inr g l1 show ?thesis by (simp add: checkAndUpdate_def log_def)
      next
        case False
        let ?s1 = "log DebugLevel ''oldIP: %s; newIP: %s'' [S recordIP, S ip] s1"
        obtain w s2 where w: "setDomainAtRecord env cfg domain ip ?s1 = (w, s2)"
          by (cases "setDomainAtRecord env cfg domain ip ?s1")
        from setDomainAtRecord_calls(1)[OF w] l1
        have "logs s2 = logs s @ [Log DebugLevel ''oldIP: %s; newIP: %s'' [S recordIP, S ip]]"
          by (simp add: log_def)
        moreover have "snd (checkAndUpdate env cfg domain ip s) = s2"
          using g w False Return Inr by (simp add: checkAndUpdate_def split: option.splits)
        ultimately show ?thesis by simp
      qed
    qed
  qed
qed

lemma checkAndUpdate_no_panic:
  assumes "\<forall>b. json_Unmarshal env b \<noteq> Inr []"
  shows "\<exists>r s1. checkAndUpdate env cfg domain ip s = (Return r, s1)"
proof -
  have "\<exists>v s1. getDomainAtRecordIP env cfg domain s = (Return v, s1)"
    using assms
    by (auto simp: getDomainAtRecordIP_unfold split: option.splits sum.splits list.splits)
  then obtain v s1 where g: "getDomainAtRecordIP env cfg domain s = (Return v, s1)" by blast
  then show ?thesis
    by (cases v) (auto simp: checkAndUpdate_def split: prod.splits option.splits)
qed

lemma report_logs: "logs (report r s) = logs s @ [report_entry r]"
  by (cases r) (simp_all add: report_def report_entry_def log_def)

lemma is_report_report_entry: "is_report (report_entry r)"
  by (cases r) (simp_all add: report_entry_def)

lemma rangeDomains_append:
  "rangeDomains env cfg ip (xs @ ys) s =
     (case rangeDomains env cfg ip xs s of
        (Panic p, s1) \<Rightarrow> (Panic p, s1)
      | (Return u, s1) \<Rightarrow> rangeDomains env cfg ip ys s1)"
  by (induction xs arbitrary: s) (auto split: prod.splits outcome.splits)

lemma rangeDomains_reports:
  assumes "rangeDomains env cfg ip ds s = (Return (), s')"
  shows "(\<exists>ex. logs s' = logs s @ ex)
          \<and> length (reports s s') = length ds
          \<and> (\<forall>i<length ds. \<exists>si r si'.
                rangeDomains env cfg ip (take i ds) s = (Return (), si)
              \<and> checkAndUpdate env cfg (ds ! i) ip si = (Return r, si')
              \<and> reports s s' ! i = report_entry r
              \<and> rangeDomains env cfg ip (drop (Suc i) ds) (report r si') = (Return (), s'))"
  using assms
proof (induction ds arbitrary: s)
  case Nil
  then show ?case by (simp add: reports_def new_logs_def)
next
  case (Cons d ds)
  from Cons.prems obtain r s1 where c: "checkAndUpdate env cfg d ip s = (Return r, s1)"
    and run: "rangeDomains env cfg ip ds (report r s1) = (Return (), s')"
    by (auto split: prod.splits outcome.splits)
  from checkAndUpdate_logs[of env cfg d ip s] c
  obtain ex1 where l1: "logs s1 = logs s @ ex1" and f1: "filter is_report ex1 = []" by auto
  let ?s2 = "report r s1"
  from Cons.IH[OF run]
  obtain ex where l2: "logs s' = logs ?s2 @ ex"
    and len: "length (reports ?s2 s') = length ds"
    and each: "\<forall>i<length ds. \<exists>si r si'.
                rangeDomains env cfg ip (take i ds) ?s2 = (Return (), si)
              \<and> checkAndUpdate env cfg (ds ! i) ip si = (Return r, si')
              \<and> reports ?s2 s' ! i = report_entry r
              \<and> rangeDomains env cfg ip (drop (Suc i) ds) (report r si') = (Return (), s')"
    by blast
  have l': "logs s' = logs s @ (ex1 @ report_entry r # ex)"
    using l1 l2 by (simp add: report_logs)
  have r2: "reports ?s2 s' = filter is_report ex"
    using l2 by (simp add: reports_def)
  have "reports s s' = report_entry r # filter is_report ex"
    using l' f1 by (simp add: reports_def is_report_report_entry)
  with r2 have r1: "reports s s' = report_entry r # reports ?s2 s'"
    by simp
  have "\<exists>si r' si'.
                rangeDomains env cfg ip (take i (d # ds)) s = (Return (), si)
              \<and> checkAndUpdate env cfg ((d # ds) ! i) ip si = (Return r', si')
              \<and> reports s s' ! i = report_entry r'
              \<and> rangeDomains env cfg ip (drop (Suc i) (d # ds)) (report r' si') = (Return (), s')"
    if i: "i < length (d # ds)" for i
  proof (cases i)
    case 0
    with c run r1 show ?thesis by simp
  next
    case (Suc j)
    with i have "j < length ds" by simp
    with each obtain si r' si' where
      "rangeDomains env cfg ip (take j ds) ?s2 = (Return (), si)"
      "checkAndUpdate env cfg (ds ! j) ip si = (Return r', si')"
      "reports ?s2 s' ! j = report_entry r'"
      "rangeDomains env cfg ip (drop (Suc j) ds) (report r' si') = (Return (), s')"
      by blast
    with Suc c r1 show ?thesis by simp
  qed
  with l' len r1 show ?case by auto
qed

lemma rangeDomains_no_panic:
  assumes "\<forall>b. json_Unmarshal env b \<noteq> Inr []"
  shows "\<exists>s'. rangeDomains env cfg ip ds s = (Return (), s')"
proof (induction ds arbitrary: s)
  case Nil
  show ?case by simp
next
  case (Cons d ds)
  from checkAndUpdate_no_panic[OF assms]
  obtain r s1 where c: "checkAndUpdate env cfg d ip s = (Return r, s1)" by blast
  from Cons.IH[of "report r s1"] c show ?case by simp
qed

lemma loopFunc_resolved:
  "getPublicIPAddress env s = (Inr currIPAddr, s1) \<Longrightarrow>
   rangeDomains env cfg currIPAddr (domains cfg) s1 = (Return (), s2) \<Longrightarrow>
   loopFunc env cfg s = (Return (), log InfoLevel ''Next update at %v'' [TimeNext] s2)"
  by (simp add: loopFunc_def)

text \<open>
  What the loop of a cycle does keep. An error returned by one domain's
  \<open>checkAndUpdate\<close> is logged and the loop goes on with the remaining domains. In
  every cycle that runs to its end the loop logs one report per configured domain: for
  each position \<open>i\<close>, \<open>checkAndUpdate\<close> runs on the \<open>i\<close>-th domain from the state
  the domains before it have left, what it returned is the \<open>i\<close>-th report, and the
  loop goes on with the domains after it. The cycle runs to its end whenever the
  provider never answers with an empty array.
\<close>

lemma loopFunc_checks_every_domain:
  assumes "getPublicIPAddress env s = (Inr ip, s1)"
  shows "(\<forall>d e sa sb rest.
            checkAndUpdate env cfg d ip sa = (Return (Some e), sb) \<longrightarrow>
            rangeDomains env cfg ip (d # rest) sa
              = rangeDomains env cfg ip rest
                  (log ErrorLevel ''Failed to update DNS records: %v'' [V e] sb))
       \<and> (\<forall>s2. rangeDomains env cfg ip (domains cfg) s1 = (Return (), s2) \<longrightarrow>
            loopFunc env cfg s = (Return (), log InfoLevel ''Next update at %v'' [TimeNext] s2)
          \<and> length (reports s1 s2) = length (domains cfg)
          \<and> (\<forall>i<length (domains cfg). \<exists>si r si'.
                rangeDomains env cfg ip (take i (domains cfg)) s1 = (Return (), si)
              \<and> checkAndUpdate env cfg (domains cfg ! i) ip si = (Return r, si')
              \<and> reports s1 s2 ! i = report_entry r
              \<and> rangeDomains env cfg ip (drop (Suc i) (domains cfg)) (report r si')
                  = (Return (), s2)))
       \<and> ((\<forall>b. json_Unmarshal env b \<noteq> Inr []) \<longrightarrow>
            (\<exists>s2. rangeDomains env cfg ip (domains cfg) s1 = (Return (), s2)))"
proof -
  have a: "rangeDomains env cfg ip (d # rest) sa
              = rangeDomains env cfg ip rest
                  (log ErrorLevel ''Failed to update DNS records: %v'' [V e] sb)"
    if "checkAndUpdate env cfg d ip sa = (Return (Some e), sb)" for d e sa sb rest
    using that by (simp add: report_def)
  have b: "loopFunc env cfg s = (Return (), log InfoLevel ''Next update at %v'' [TimeNext] s2)
          \<and> length (reports s1 s2) = length (domains cfg)
          \<and> (\<forall>i<length (domains cfg). \<exists>si r si'.
                rangeDomains env cfg ip (take i (domains cfg)) s1 = (Return (), si)
              \<and> checkAndUpdate env cfg (domains cfg ! i) ip si = (Return r, si')
              \<and> reports s1 s2 ! i = report_entry r
              \<and> rangeDomains env cfg ip (drop (Suc i) (domains cfg)) (report r si')
                  = (Return (), s2))"
    if run: "rangeDomains env cfg ip (domains cfg) s1 = (Return (), s2)" for s2
    using loopFunc_resolved[OF assms run] rangeDomains_reports[OF run] by blast
  have c: "\<exists>s2. rangeDomains env cfg ip (domains cfg) s1 = (Return (), s2)"
    if "\<forall>b. json_Unmarshal env b \<noteq> Inr []"
    using rangeDomains_no_panic[OF that] by blast
  from a b c show ?thesis by blast
qed

lemma strict_env_no_empty_array: "\<forall>b. json_Unmarshal strict_env b \<noteq> Inr []"
  by (simp add: strict_env_def example_Unmarshal_def)

lemma getDomainAtRecordIP_strict:
  "getDomainAtRecordIP strict_env cfg domain s =
     (case example_Do (calls s) (get_request cfg domain) of
        Inl err \<Rightarrow> Return (Inl err)
      | Inr httpRes \<Rightarrow>
          (case Body httpRes of
             Inl err \<Rightarrow> Return (Inl err)
           | Inr httpResBytes \<Rightarrow>
               if StatusCode httpRes \<noteq> 200 then
                 Return (Inl (Errorf ''godaddy sent non-ok status code %d, body: %s''
                                [D (StatusCode httpRes), S httpResBytes]))
               else
                 (case example_Unmarshal httpResBytes of
                    Inl err \<Rightarrow> Return (Inl err)
                  | Inr [] \<Rightarrow> Return (Inl (External ''json: empty array''))
                  | Inr (r # rs) \<Rightarrow> Return (Inr (get_Data r)))),
      s\<lparr>calls := calls s @ [get_request cfg domain]\<rparr>)"
  by (simp add: getDomainAtRecordIP_unfold strict_env_def example_env_def
      split: sum.splits list.splits)

lemma setDomainAtRecord_strict:
  "setDomainAtRecord strict_env cfg domain ip s =
     (case example_Do (calls s) (put_request cfg domain ip) of
        Inl err \<Rightarrow> None
      | Inr res \<Rightarrow>
          if StatusCode res \<noteq> 200 then
            (case Body res of
               Inl err \<Rightarrow> Some (Errorf ''received non-ok status code %d from godaddy, but failed to read body: %v''
                          [D (StatusCode res), V err])
             | Inr body \<Rightarrow> Some (Errorf ''received non-ok status code %d from godaddy, body: %s''
                          [D (StatusCode res), S body]))
          else None,
      s\<lparr>calls := calls s @ [put_request cfg domain ip]\<rparr>)"
  by (simp add: setDomainAtRecord_unfold strict_env_def example_env_def split: sum.splits)

lemma getPublicIPAddress_strict:
  "getPublicIPAddress strict_env s = (Inr ''5.6.7.8 '', s\<lparr>calls := calls s @ [ip_request]\<rparr>)"
  by (simp add: getPublicIPAddress_unfold strict_env_def example_env_def example_Do_def
      ip_request_def TrimRight_def)

lemma loopFunc_down_then_update_example:
  "loopFunc strict_env (example_cfg [''down.example'', ''a.example'']) empty_state
     = (Return (),
        \<lparr>calls = [ip_request,
                  get_request (example_cfg [''down.example'', ''a.example'']) ''down.example'',
                  get_request (example_cfg [''down.example'', ''a.example'']) ''a.example'',
                  put_request (example_cfg [''down.example'', ''a.example'']) ''a.example'' ''5.6.7.8 ''],
         logs = [Log ErrorLevel ''Failed to update DNS records: %v''
                   [V (Errorf ''failed to get DNS record IP address for domain %s: %v''
                         [S ''down.example'', V (External ''connection reset by peer'')])],
                 Log DebugLevel ''oldIP: %s; newIP: %s'' [S ''1.2.3.4'', S ''5.6.7.8 ''],
                 Log InfoLevel ''Update successful at %v'' [TimeNow],
                 Log InfoLevel ''Next update at %v'' [TimeNext]]\<rparr>)"
proof -
  let ?cfg = "example_cfg [''down.example'', ''a.example'']"
  let ?s1 = "\<lparr>calls = [ip_request], logs = []\<rparr>"
  let ?s2 = "\<lparr>calls = [ip_request, get_request ?cfg ''down.example'',
                       get_request ?cfg ''a.example'', put_request ?cfg ''a.example'' ''5.6.7.8 ''],
              logs = [Log ErrorLevel ''Failed to update DNS records: %v''
                   [V (Errorf ''failed to get DNS record IP address for domain %s: %v''
                         [S ''down.example'', V (External ''connection reset by peer'')])],
                 Log DebugLevel ''oldIP: %s; newIP: %s'' [S ''1.2.3.4'', S ''5.6.7.8 ''],
                 Log InfoLevel ''Update successful at %v'' [TimeNow]]\<rparr>"
  have g: "getPublicIPAddress strict_env empty_state = (Inr ''5.6.7.8 '', ?s1)"
    by (simp add: getPublicIPAddress_strict empty_state_def)
  note t = loopFunc_checks_every_domain[OF g, of ?cfg]
  from t strict_env_no_empty_array
  obtain s2 where run: "rangeDomains strict_env ?cfg ''5.6.7.8 '' (domains ?cfg) ?s1 = (Return (), s2)"
    by blast
  with t have l: "loopFunc strict_env ?cfg empty_state
              = (Return (), log InfoLevel ''Next update at %v'' [TimeNext] s2)"
    by blast
  have c: "rangeDomains strict_env ?cfg ''5.6.7.8 '' (domains ?cfg) ?s1 = (Return (), ?s2)"
    by (simp add: example_cfg_def checkAndUpdate_def getDomainAtRecordIP_strict
        setDomainAtRecord_strict example_Do_def example_Unmarshal_def get_request_def
        put_request_def example_urls report_def log_def)
  from run c have "s2 = ?s2" by simp
  with l show ?thesis by (simp add: log_def)
qed

subsection \<open>The older version: the cached address\<close>

lemma updateDNSEntriesIP_range_Cons:
  "updateDNSEntriesIP_range env cfg ipaddr (domain # rest) s =
     (case url_parse env (''https://api.godaddy.com/v1/domains/'' @ domain @ ''/records/A'') of
        Some err \<Rightarrow> (Some err, s)
      | None \<Rightarrow>
          (case client_Do env (calls s) (put_request_cached env cfg ipaddr domain) of
             Inl err \<Rightarrow> (Some err, s\<lparr>calls := calls s @ [put_request_cached env cfg ipaddr domain]\<rparr>)
           | Inr res \<Rightarrow>
               if StatusCode res \<noteq> 200 then
                 (Some (Errorf ''updating dns record for domain %s failed with status code %d: %s''
                          [S domain, D (StatusCode res),
                           S (case Body res of Inl e \<Rightarrow> ReadAll_partial env res | Inr b \<Rightarrow> b)]),
                  s\<lparr>calls := calls s @ [put_request_cached env cfg ipaddr domain]\<rparr>)
               else updateDNSEntriesIP_range env cfg ipaddr rest
                      (s\<lparr>calls := calls s @ [put_request_cached env cfg ipaddr domain]\<rparr>)))"
  by (simp add: Encode_cached_def NewRequestWithContext_def put_request_cached_def Do_def Let_def
      split: option.splits sum.splits)

lemma updateDNSEntriesIP_range_success:
  "updateDNSEntriesIP_range env cfg ipaddr ds s = (None, s') \<Longrightarrow>
   logs s' = logs s
   \<and> calls s' = calls s @ map (put_request_cached env cfg ipaddr) ds
   \<and> writes_confirmed env (calls s) (map (put_request_cached env cfg ipaddr) ds)"
proof (induction ds arbitrary: s)
  case Nil
  then show ?case by simp
next
  case (Cons d ds)
  let ?req = "put_request_cached env cfg ipaddr d"
  let ?s1 = "s\<lparr>calls := calls s @ [?req]\<rparr>"
  from Cons.prems obtain res where
    d: "client_Do env (calls s) ?req = Inr res" and st: "StatusCode res = 200"
    and rest: "updateDNSEntriesIP_range env cfg ipaddr ds ?s1 = (None, s')"
    by (auto simp: updateDNSEntriesIP_range_Cons simp del: updateDNSEntriesIP_range.simps
        split: option.splits sum.splits if_splits)
  from Cons.IH[OF rest] d st show ?case by simp
qed

lemma getPublicIPAddress_cached_logs:
  "logs (snd (getPublicIPAddress_cached env s)) = logs s"
  by (simp add: getPublicIPAddress_cached_def NewRequestWithContext_def Do_def
      split: option.splits sum.splits)

text \<open>
  Claim C7. In the older version, once \<open>lastIPAddr\<close> is known (not empty), a run of
  \<open>updateRecords\<close> that returns an error leaves it unchanged; in particular a write
  that fails, on the transport or with a status other than 200, leaves it unchanged.
  When the run changes it, the run returned \<open>nil\<close>, the new value is the resolved
  public address, and \<open>updateDNSEntriesIP\<close> has made one write per domain, each
  answered with status 200.
\<close>
theorem updateRecords_cache_changes_only_after_confirmed_writes:
  assumes known: "lastIPAddr \<noteq> []"
    and run: "updateRecords env cfg lastIPAddr s = (r, lastIPAddr', s')"
  shows "(r \<noteq> Return None \<longrightarrow> lastIPAddr' = lastIPAddr)
       \<and> (\<forall>cur s1 e s2.
             getPublicIPAddress_cached env s = (Inr cur, s1)
           \<and> updateDNSEntriesIP env cfg cur
                (log DebugLevel ''oldIP: %s; newIP: %s'' [S lastIPAddr, S cur] s1) = (Some e, s2)
           \<longrightarrow> lastIPAddr' = lastIPAddr)
       \<and> (lastIPAddr' \<noteq> lastIPAddr \<longrightarrow>
            r = Return None
          \<and> (\<exists>s1. getPublicIPAddress_cached env s = (Inr lastIPAddr', s1)
                \<and> updateDNSEntriesIP env cfg lastIPAddr'
                     (log DebugLevel ''oldIP: %s; newIP: %s'' [S lastIPAddr, S lastIPAddr'] s1)
                   = (None, s')
                \<and> new_calls s1 s' = map (put_request_cached env cfg lastIPAddr') (domains cfg)
                \<and> writes_confirmed env (calls s1)
                     (map (put_request_cached env cfg lastIPAddr') (domains cfg))))"
proof -
  from known run have cmp: "updateRecords_compare env cfg lastIPAddr s = (r, lastIPAddr', s')"
    by (simp add: updateRecords_def)
  obtain p s1 where g: "getPublicIPAddress_cached env s = (p, s1)"
    by (cases "getPublicIPAddress_cached env s")
  show ?thesis
  proof (cases p)
    case (Inl err)
    with g cmp show ?thesis by (auto simp: updateRecords_compare_def)
  next
    case (Inr cur)
    show ?thesis
    proof (cases "cur = lastIPAddr")
      case True
      with Inr g cmp show ?thesis by (auto simp: updateRecords_compare_def)
    next
      case False
      let ?s1 = "log DebugLevel ''oldIP: %s; newIP: %s'' [S lastIPAddr, S cur] s1"
      obtain w s2 where w: "updateDNSEntriesIP env cfg cur ?s1 = (w, s2)"
        by (cases "updateDNSEntriesIP env cfg cur ?s1")
      show ?thesis
      proof (cases w)
        case (Some e)
        with w False Inr g cmp show ?thesis by (auto simp: updateRecords_compare_def)
      next
        case None
        with w False Inr g cmp have res: "r = Return None" "lastIPAddr' = cur" "s' = s2"
          by (auto simp: updateRecords_compare_def)
        from w None have "updateDNSEntriesIP_range env cfg cur (domains cfg) ?s1 = (None, s2)"
          by (simp add: updateDNSEntriesIP_def)
        from updateDNSEntriesIP_range_success[OF this]
        have "calls s2 = calls s1 @ map (put_request_cached env cfg cur) (domains cfg)"
          and "writes_confirmed env (calls s1) (map (put_request_cached env cfg cur) (domains cfg))"
          by (simp_all add: log_def)
        with res w None Inr g show ?thesis by auto
      qed
    qed
  qed
qed

subsection \<open>The older version: the first fetch\<close>

lemma adjacent_change:
  assumes same: "\<forall>k. Suc k < length xs \<longrightarrow> xs ! k = [] \<or> xs ! Suc k = xs ! k"
    and ne: "xs ! i \<noteq> []"
  shows "i \<le> j \<Longrightarrow> j < length xs \<Longrightarrow> xs ! j = xs ! i"
proof (induction j)
  case 0
  then show ?case by simp
next
  case (Suc j)
  show ?case
  proof (cases "i = Suc j")
    case True
    then show ?thesis by simp
  next
    case False
    with Suc.prems have le: "i \<le> j" and lt: "j < length xs" by simp_all
    from Suc.IH[OF le lt] have eq: "xs ! j = xs ! i" .
    from same Suc.prems(2) have "xs ! j = [] \<or> xs ! Suc j = xs ! j" by blast
    with eq ne show ?thesis by simp
  qed
qed

lemma distinct_gives_adjacent:
  assumes "i < j" "j < length xs" "xs ! i \<noteq> []" "xs ! j \<noteq> xs ! i"
  shows "\<exists>k. Suc k < length xs \<and> xs ! k \<noteq> [] \<and> xs ! Suc k \<noteq> xs ! k"
proof (rule ccontr)
  assume "\<not> ?thesis"
  then have "\<forall>k. Suc k < length xs \<longrightarrow> xs ! k = [] \<or> xs ! Suc k = xs ! k" by blast
  from adjacent_change[OF this assms(3), of j] assms show False by simp
qed

lemma getDNSEntriesIP_range_sentinel:
  "reported_IPs env cfg ds s = Some ips \<Longrightarrow>
   \<exists>k. Suc k < length (retval # ips) \<and> (retval # ips) ! k \<noteq> []
        \<and> (retval # ips) ! Suc k \<noteq> (retval # ips) ! k \<Longrightarrow>
   fst (getDNSEntriesIP_range env cfg retval ds s) = Return (Inr ''0.0.0.0'')"
proof (induction ds arbitrary: s ips retval)
  case Nil
  then show ?case by simp
next
  case (Cons d ds)
  from Cons.prems(1) obtain x xs s1 where
    e: "getDNSEntry env cfg d s = (Return (Inr x), s1)"
    and r: "reported_IPs env cfg ds s1 = Some xs" and ips: "ips = x # xs"
    by (auto split: prod.splits outcome.splits sum.splits)
  show ?case
  proof (cases "retval \<noteq> x \<and> retval \<noteq> []")
    case True
    with e show ?thesis by simp
  next
    case False
    from Cons.prems(2) ips obtain k where k: "Suc k < length (retval # x # xs)"
      "(retval # x # xs) ! k \<noteq> []" "(retval # x # xs) ! Suc k \<noteq> (retval # x # xs) ! k"
      by blast
    with False obtain k' where "k = Suc k'" by (cases k) auto
    with k have "\<exists>k. Suc k < length (x # xs) \<and> (x # xs) ! k \<noteq> []
        \<and> (x # xs) ! Suc k \<noteq> (x # xs) ! k" by auto
    from Cons.IH[OF r this] e False show ?thesis by simp
  qed
qed

lemma getDNSEntriesIP_range_common:
  "reported_IPs env cfg ds s = Some ips \<Longrightarrow> \<forall>x\<in>set ips. x = c \<Longrightarrow>
   retval = [] \<or> retval = c \<Longrightarrow>
   fst (getDNSEntriesIP_range env cfg retval ds s) = Return (Inr (if ips = [] then retval else c))"
proof (induction ds arbitrary: s ips retval)
  case Nil
  then show ?case by simp
next
  case (Cons d ds)
  from Cons.prems(1) obtain x xs s1 where
    e: "getDNSEntry env cfg d s = (Return (Inr x), s1)"
    and r: "reported_IPs env cfg ds s1 = Some xs" and ips: "ips = x # xs"
    by (auto split: prod.splits outcome.splits sum.splits)
  from Cons.prems(2) ips have x: "x = c" and xs: "\<forall>y\<in>set xs. y = c" by simp_all
  from Cons.IH[OF r xs, of x] x
  have "fst (getDNSEntriesIP_range env cfg x ds s1) = Return (Inr c)" by simp
  with e x Cons.prems(3) ips show ?case by auto
qed

lemma getDNSEntry_example:
  "getDNSEntry example_env cfg domain s =
     (case example_Do (calls s) (get_request cfg domain) of
        Inl err \<Rightarrow> Return (Inl err)
      | Inr resp \<Rightarrow>
          (case (case Body resp of Inl err \<Rightarrow> Inl err
                 | Inr bytes \<Rightarrow>
                     map_sum id (map (\<lambda>r. \<lparr>anon_Data = get_Data r\<rparr>)) (example_Unmarshal bytes)) of
             Inl err \<Rightarrow> Return (Inl err)
           | Inr [] \<Rightarrow> Panic ''index out of range [0] with length 0''
           | Inr (d # ds) \<Rightarrow> Return (Inr (anon_Data d))),
      s\<lparr>calls := calls s @ [get_request cfg domain]\<rparr>)"
  by (simp add: getDNSEntry_def NewRequestWithContext_def example_env_def Do_def Header_Set_def
      get_request_def record_url_def GodaddyApiBase_def GodaddyBaseUrl_def
      split: sum.splits list.splits)

text \<open>
  Claim C10, as stated, promises the common record address whenever no two domains
  report different non-empty addresses. With \<open>a.example\<close> reporting 1.2.3.4 and
  \<open>nodata.example\<close> reporting the empty string, only one non-empty address is
  reported, and \<open>getDNSEntriesIP\<close> returns \<open>"0.0.0.0"\<close>.
\<close>
theorem getDNSEntriesIP_sentinel_without_two_addresses:
  "reported_IPs example_env (example_cfg [''a.example'', ''nodata.example''])
       [''a.example'', ''nodata.example''] empty_state = Some [''1.2.3.4'', []]
   \<and> fst (getDNSEntriesIP example_env (example_cfg [''a.example'', ''nodata.example'']) empty_state)
       = Return (Inr ''0.0.0.0'')"
  by (simp add: getDNSEntriesIP_def getDNSEntry_example example_cfg_def empty_state_def
      example_Do_def get_request_def record_url_def GodaddyApiBase_def GodaddyBaseUrl_def
      example_Unmarshal_def)

text \<open>
  Claim C10, amended. When every domain's record can be read, \<open>getDNSEntriesIP\<close>
  returns \<open>"0.0.0.0"\<close> whenever two domains report different non-empty addresses, and
  more generally whenever a domain reporting a non-empty address is directly followed
  by a domain reporting another value, the empty one included; when all domains report
  the same address, it returns that address.
\<close>
theorem getDNSEntriesIP_sentinel_or_common:
  assumes "reported_IPs env cfg (domains cfg) s = Some ips"
  shows "((\<exists>i j. i < j \<and> j < length ips \<and> ips ! i \<noteq> [] \<and> ips ! j \<noteq> [] \<and> ips ! i \<noteq> ips ! j)
            \<longrightarrow> fst (getDNSEntriesIP env cfg s) = Return (Inr ''0.0.0.0''))
       \<and> ((\<exists>k. Suc k < length ips \<and> ips ! k \<noteq> [] \<and> ips ! Suc k \<noteq> ips ! k)
            \<longrightarrow> fst (getDNSEntriesIP env cfg s) = Return (Inr ''0.0.0.0''))
       \<and> (ips \<noteq> [] \<and> (\<forall>x\<in>set ips. x = c)
            \<longrightarrow> fst (getDNSEntriesIP env cfg s) = Return (Inr c))"
proof -
  have adj: "fst (getDNSEntriesIP env cfg s) = Return (Inr ''0.0.0.0'')"
    if "\<exists>k. Suc k < length ips \<and> ips ! k \<noteq> [] \<and> ips ! Suc k \<noteq> ips ! k"
  proof -
    from that obtain k where "Suc k < length ips" "ips ! k \<noteq> []" "ips ! Suc k \<noteq> ips ! k"
      by blast
    then have "Suc (Suc k) < length ([] # ips) \<and> ([] # ips) ! Suc k \<noteq> []
        \<and> ([] # ips) ! Suc (Suc k) \<noteq> ([] # ips) ! Suc k" by simp
    then have "\<exists>k. Suc k < length ([] # ips) \<and> ([] # ips) ! k \<noteq> []
        \<and> ([] # ips) ! Suc k \<noteq> ([] # ips) ! k" by blast
    from getDNSEntriesIP_range_sentinel[OF assms this] show ?thesis
      by (simp add: getDNSEntriesIP_def)
  qed
  have two: "fst (getDNSEntriesIP env cfg s) = Return (Inr ''0.0.0.0'')"
    if "\<exists>i j. i < j \<and> j < length ips \<and> ips ! i \<noteq> [] \<and> ips ! j \<noteq> [] \<and> ips ! i \<noteq> ips ! j"
  proof -
    from that obtain i j where "i < j" "j < length ips" "ips ! i \<noteq> []" "ips ! j \<noteq> ips ! i"
      by metis
    from adj[OF distinct_gives_adjacent[OF this]] show ?thesis .
  qed
  have com: "fst (getDNSEntriesIP env cfg s) = Return (Inr c)"
    if "ips \<noteq> [] \<and> (\<forall>x\<in>set ips. x = c)"
    using getDNSEntriesIP_range_common[OF assms, of c "[]"] that
    by (simp add: getDNSEntriesIP_def)
  from adj two com show ?thesis by blast
qed

subsection \<open>Runs against the example provider\<close>

text \<open>
  The example provider of the specification: the record of \<open>a.example\<close> is 1.2.3.4
  and the public address is 5.6.7.8, so one write with the data 5.6.7.8 is made; the
  record of \<open>b.example\<close> is 5.6.7.8 already, so none is made.
\<close>

lemma getDomainAtRecordIP_example:
  "getDomainAtRecordIP example_env cfg domain s =
     (case example_Do (calls s) (get_request cfg domain) of
        Inl err \<Rightarrow> Return (Inl err)
      | Inr httpRes \<Rightarrow>
          (case Body httpRes of
             Inl err \<Rightarrow> Return (Inl err)
           | Inr httpResBytes \<Rightarrow>
               if StatusCode httpRes \<noteq> 200 then
                 Return (Inl (Errorf ''godaddy sent non-ok status code %d, body: %s''
                                [D (StatusCode httpRes), S httpResBytes]))
               else
                 (case example_Unmarshal httpResBytes of
                    Inl err \<Rightarrow> Return (Inl err)
                  | Inr [] \<Rightarrow> Panic ''index out of range [0] with length 0''
                  | Inr (r # rs) \<Rightarrow> Return (Inr (get_Data r)))),
      s\<lparr>calls := calls s @ [get_request cfg domain]\<rparr>)"
  by (simp add: getDomainAtRecordIP_unfold example_env_def split: sum.splits list.splits)

lemma setDomainAtRecord_example:
  "setDomainAtRecord example_env cfg domain ip s =
     (case example_Do (calls s) (put_request cfg domain ip) of
        Inl err \<Rightarrow> None
      | Inr res \<Rightarrow>
          if StatusCode res \<noteq> 200 then
            (case Body res of
               Inl err \<Rightarrow> Some (Errorf ''received non-ok status code %d from godaddy, but failed to read body: %v''
                          [D (StatusCode res), V err])
             | Inr body \<Rightarrow> Some (Errorf ''received non-ok status code %d from godaddy, body: %s''
                          [D (StatusCode res), S body]))
          else None,
      s\<lparr>calls := calls s @ [put_request cfg domain ip]\<rparr>)"
  by (simp add: setDomainAtRecord_unfold example_env_def split: sum.splits)

lemmas example_run = example_Do_def example_Unmarshal_def get_request_def put_request_def
  example_urls log_def

theorem checkAndUpdate_decides_by_needsUpdate_witness:
  "checkAndUpdate example_env (example_cfg [''a.example'']) ''a.example'' ''5.6.7.8'' empty_state
     = (Return None,
        \<lparr>calls = [get_request (example_cfg [''a.example'']) ''a.example'',
                  put_request (example_cfg [''a.example'']) ''a.example'' ''5.6.7.8''],
         logs = [Log DebugLevel ''oldIP: %s; newIP: %s'' [S ''1.2.3.4'', S ''5.6.7.8'']]\<rparr>)
   \<and> needsUpdate_spec ''1.2.3.4'' ''5.6.7.8''
   \<and> checkAndUpdate example_env (example_cfg [''b.example'']) ''b.example'' ''5.6.7.8'' empty_state
     = (Return None,
        \<lparr>calls = [get_request (example_cfg [''b.example'']) ''b.example''],
         logs = [Log InfoLevel ''No update necessary for %s'' [S ''b.example'']]\<rparr>)
   \<and> \<not> needsUpdate_spec ''5.6.7.8'' ''5.6.7.8''"
proof -
  let ?a = "example_cfg [''a.example'']"
  let ?b = "example_cfg [''b.example'']"
  have ga: "getDomainAtRecordIP example_env ?a ''a.example'' empty_state
              = (Return (Inr ''1.2.3.4''), \<lparr>calls = [get_request ?a ''a.example''], logs = []\<rparr>)"
    by (simp add: getDomainAtRecordIP_example empty_state_def example_run)
  have gb: "getDomainAtRecordIP example_env ?b ''b.example'' empty_state
              = (Return (Inr ''5.6.7.8''), \<lparr>calls = [get_request ?b ''b.example''], logs = []\<rparr>)"
    by (simp add: getDomainAtRecordIP_example empty_state_def example_run)
  note a = checkAndUpdate_decides_by_needsUpdate[OF ga, of "''5.6.7.8''"]
  note b = checkAndUpdate_decides_by_needsUpdate[OF gb, of "''5.6.7.8''"]
  have na: "needsUpdate_spec ''1.2.3.4'' ''5.6.7.8''" using a by simp
  have nb: "\<not> needsUpdate_spec ''5.6.7.8'' ''5.6.7.8''" using b by simp
  from a na have "checkAndUpdate example_env ?a ''a.example'' ''5.6.7.8'' empty_state
     = (Return None,
        \<lparr>calls = [get_request ?a ''a.example'', put_request ?a ''a.example'' ''5.6.7.8''],
         logs = [Log DebugLevel ''oldIP: %s; newIP: %s'' [S ''1.2.3.4'', S ''5.6.7.8'']]\<rparr>)"
    by (simp add: setDomainAtRecord_example example_run)
  moreover from b nb have "checkAndUpdate example_env ?b ''b.example'' ''5.6.7.8'' empty_state
     = (Return None,
        \<lparr>calls = [get_request ?b ''b.example''],
         logs = [Log InfoLevel ''No update necessary for %s'' [S ''b.example'']]\<rparr>)"
    by (simp add: log_def)
  ultimately show ?thesis using na nb by simp
qed


lemma getPublicIPAddress_cached_example:
  "getPublicIPAddress_cached example_env s =
     (Inr ''5.6.7.8'',
      s\<lparr>calls := calls s @ [\<lparr>Method = GET, Url = ''https://api.ipify.org'', Header = [],
                               ReqBody = NoBody\<rparr>]\<rparr>)"
  by (simp add: getPublicIPAddress_cached_def NewRequestWithContext_def Do_def example_env_def
      example_Do_def)

lemma updateDNSEntriesIP_example:
  "updateDNSEntriesIP example_env (example_cfg [domain]) ipaddr s =
     (let req = put_request_cached example_env (example_cfg [domain]) ipaddr domain in
      (case example_Do (calls s) req of
         Inl err \<Rightarrow> Some err
       | Inr res \<Rightarrow>
           if StatusCode res \<noteq> 200 then
             Some (Errorf ''updating dns record for domain %s failed with status code %d: %s''
                     [S domain, D (StatusCode res), S (case Body res of Inl e \<Rightarrow> [] | Inr b \<Rightarrow> b)])
           else None,
       s\<lparr>calls := calls s @ [req]\<rparr>))"
proof -
  have u: "url_parse example_env u = None" for u by (simp add: example_env_def)
  have d: "client_Do example_env = example_Do" by (simp add: example_env_def)
  have r: "ReadAll_partial example_env res = []" for res by (simp add: example_env_def)
  show ?thesis
    by (simp add: updateDNSEntriesIP_def example_cfg_def updateDNSEntriesIP_range_Cons u d r Let_def
        del: updateDNSEntriesIP_range.simps(2) split: sum.splits)
qed

lemma put_request_cached_example:
  "put_request_cached example_env (example_cfg ds) ipaddr domain =
     \<lparr>Method = PUT, Url = ''https://api.godaddy.com/v1/domains/'' @ domain @ ''/records/A'',
      Header = [(''Content-Type'', ''application/json''), (''Authorization'', ''sso-key key:secret'')],
      ReqBody = PutRecords [\<lparr>put_Name = ''@'', put_Data = ipaddr, put_TTL = 600\<rparr>]\<rparr>"
  by (simp add: put_request_cached_def Header_Set_def getGDAuthHeader_def example_cfg_def
      example_env_def)

theorem updateRecords_cache_changes_only_after_confirmed_writes_witness:
  "updateRecords example_env (example_cfg [''a.example'']) ''1.2.3.4'' empty_state
     = (Return None, ''5.6.7.8'',
        \<lparr>calls = [\<lparr>Method = GET, Url = ''https://api.ipify.org'', Header = [], ReqBody = NoBody\<rparr>,
                  put_request_cached example_env (example_cfg [''a.example'']) ''5.6.7.8'' ''a.example''],
         logs = [Log DebugLevel ''oldIP: %s; newIP: %s'' [S ''1.2.3.4'', S ''5.6.7.8'']]\<rparr>)
   \<and> writes_confirmed example_env
        [\<lparr>Method = GET, Url = ''https://api.ipify.org'', Header = [], ReqBody = NoBody\<rparr>]
        [put_request_cached example_env (example_cfg [''a.example'']) ''5.6.7.8'' ''a.example'']
   \<and> fst (updateRecords example_env (example_cfg [''denied.example'']) ''1.2.3.4'' empty_state)
       = Return (Some (Errorf ''updating dns record for domain %s failed with status code %d: %s''
                         [S ''denied.example'', D 403, S ''ACCESS_DENIED'']))
   \<and> fst (snd (updateRecords example_env (example_cfg [''denied.example'']) ''1.2.3.4'' empty_state))
       = ''1.2.3.4''"
proof -
  let ?ipreq = "\<lparr>Method = GET, Url = ''https://api.ipify.org'', Header = [], ReqBody = NoBody\<rparr>"
  let ?a = "example_cfg [''a.example'']"
  let ?d = "example_cfg [''denied.example'']"
  let ?sa = "\<lparr>calls = [?ipreq, put_request_cached example_env ?a ''5.6.7.8'' ''a.example''],
         logs = [Log DebugLevel ''oldIP: %s; newIP: %s'' [S ''1.2.3.4'', S ''5.6.7.8'']]\<rparr>"
  have known: "''1.2.3.4'' \<noteq> []" by simp
  have runa: "updateRecords example_env ?a ''1.2.3.4'' empty_state = (Return None, ''5.6.7.8'', ?sa)"
    by (simp add: updateRecords_def updateRecords_compare_def getPublicIPAddress_cached_example
        updateDNSEntriesIP_example put_request_cached_example example_Do_def example_urls
        log_def empty_state_def)
  from updateRecords_cache_changes_only_after_confirmed_writes[OF known runa]
  have wa: "writes_confirmed example_env [?ipreq]
        [put_request_cached example_env ?a ''5.6.7.8'' ''a.example'']"
    by (auto simp: getPublicIPAddress_cached_example empty_state_def example_cfg_def)
  obtain r l s' where rund: "updateRecords example_env ?d ''1.2.3.4'' empty_state = (r, l, s')"
    by (cases "updateRecords example_env ?d ''1.2.3.4'' empty_state")
  have fd: "fst (updateRecords example_env ?d ''1.2.3.4'' empty_state)
       = Return (Some (Errorf ''updating dns record for domain %s failed with status code %d: %s''
                         [S ''denied.example'', D 403, S ''ACCESS_DENIED'']))"
    by (simp add: updateRecords_def updateRecords_compare_def getPublicIPAddress_cached_example
        updateDNSEntriesIP_example put_request_cached_example example_Do_def example_urls
        log_def empty_state_def)
  with rund have "r \<noteq> Return None" by simp
  with updateRecords_cache_changes_only_after_confirmed_writes[OF known rund]
  have "l = ''1.2.3.4''" by blast
  with rund have "fst (snd (updateRecords example_env ?d ''1.2.3.4'' empty_state)) = ''1.2.3.4''"
    by simp
  with runa wa fd show ?thesis by simp
qed

theorem getDNSEntriesIP_sentinel_or_common_witness:
  "fst (getDNSEntriesIP example_env (example_cfg [''a.example'', ''b.example'']) empty_state)
     = Return (Inr ''0.0.0.0'')
   \<and> fst (getDNSEntriesIP example_env (example_cfg [''a.example'', ''denied.example'']) empty_state)
     = Return (Inr ''1.2.3.4'')"
proof -
  let ?ab = "example_cfg [''a.example'', ''b.example'']"
  let ?ad = "example_cfg [''a.example'', ''denied.example'']"
  have rab: "reported_IPs example_env ?ab (domains ?ab) empty_state = Some [''1.2.3.4'', ''5.6.7.8'']"
    by (simp add: getDNSEntry_example example_cfg_def empty_state_def example_Do_def
        get_request_def example_urls example_Unmarshal_def)
  have rad: "reported_IPs example_env ?ad (domains ?ad) empty_state = Some [''1.2.3.4'', ''1.2.3.4'']"
    by (simp add: getDNSEntry_example example_cfg_def empty_state_def example_Do_def
        get_request_def example_urls example_Unmarshal_def)
  have two: "\<exists>i j. i < j \<and> j < length [''1.2.3.4'', ''5.6.7.8'']
      \<and> [''1.2.3.4'', ''5.6.7.8''] ! i \<noteq> [] \<and> [''1.2.3.4'', ''5.6.7.8''] ! j \<noteq> []
      \<and> [''1.2.3.4'', ''5.6.7.8''] ! i \<noteq> [''1.2.3.4'', ''5.6.7.8''] ! j"
    by (rule exI[of _ 0], rule exI[of _ 1]) simp
  from getDNSEntriesIP_sentinel_or_common[OF rab] two
  have a: "fst (getDNSEntriesIP example_env ?ab empty_state) = Return (Inr ''0.0.0.0'')"
    by blast
  from getDNSEntriesIP_sentinel_or_common[OF rad, of "''1.2.3.4''"]
  have b: "fst (getDNSEntriesIP example_env ?ad empty_state) = Return (Inr ''1.2.3.4'')"
    by simp
  from a b show ?thesis by simp
qed

lemma domains_example_cfg: "domains (example_cfg ds) = ds"
  by (simp add: example_cfg_def)



lemma write_down_env_fields:
  "url_parse write_down_env u = None"
  "json_Unmarshal write_down_env = example_Unmarshal"
  "client_Do write_down_env hist req =
     (if Method req = PUT then Inl (External ''dial tcp4: i/o timeout'')
      else example_Do hist req)"
  by (simp_all add: write_down_env_def example_env_def)

text \<open>
  Claim C6. The specification wants a failure of one domain's read or write to be
  reported and to leave the check of the remaining domains alone. In the code two
  failures escape the loop. With \<open>empty.example\<close> first in the list, whose read is
  answered with an empty array, the cycle ends in the panic of that read:
  \<open>a.example\<close> is never read and nothing is reported. With a transport that fails on
  the write, \<open>setDomainAtRecord\<close> returns \<open>nil\<close> and the loop reports the failed
  update of \<open>a.example\<close> as successful.
\<close>
theorem loopFunc_failures_not_isolated:
  "loopFunc example_env (example_cfg [''empty.example'', ''a.example'']) empty_state
     = (Panic ''index out of range [0] with length 0'',
        \<lparr>calls = [ip_request,
                  get_request (example_cfg [''empty.example'', ''a.example'']) ''empty.example''],
         logs = []\<rparr>)
   \<and> client_Do write_down_env
         [ip_request, get_request (example_cfg [''a.example'']) ''a.example'']
         (put_request (example_cfg [''a.example'']) ''a.example'' ''5.6.7.8 '')
       = Inl (External ''dial tcp4: i/o timeout'')
   \<and> loopFunc write_down_env (example_cfg [''a.example'']) empty_state
     = (Return (),
        \<lparr>calls = [ip_request,
                  get_request (example_cfg [''a.example'']) ''a.example'',
                  put_request (example_cfg [''a.example'']) ''a.example'' ''5.6.7.8 ''],
         logs = [Log DebugLevel ''oldIP: %s; newIP: %s'' [S ''1.2.3.4'', S ''5.6.7.8 ''],
                 Log InfoLevel ''Update successful at %v'' [TimeNow],
                 Log InfoLevel ''Next update at %v'' [TimeNext]]\<rparr>)"
proof -
  let ?e = "example_cfg [''empty.example'', ''a.example'']"
  let ?a = "example_cfg [''a.example'']"
  let ?s1 = "\<lparr>calls = [ip_request], logs = []\<rparr>"
  have g1: "getPublicIPAddress example_env empty_state = (Inr ''5.6.7.8 '', ?s1)"
    by (simp add: getPublicIPAddress_unfold example_env_def example_Do_def ip_request_def
        TrimRight_def empty_state_def)
  have c1: "checkAndUpdate example_env ?e ''empty.example'' ''5.6.7.8 '' ?s1
             = (Panic ''index out of range [0] with length 0'',
                \<lparr>calls = [ip_request, get_request ?e ''empty.example''], logs = []\<rparr>)"
    by (simp add: checkAndUpdate_def getDomainAtRecordIP_example example_Do_def
        example_Unmarshal_def get_request_def example_urls)
  have p: "loopFunc example_env ?e empty_state
     = (Panic ''index out of range [0] with length 0'',
        \<lparr>calls = [ip_request, get_request ?e ''empty.example''], logs = []\<rparr>)"
    by (simp add: loopFunc_def g1 domains_example_cfg c1)
  have d: "client_Do write_down_env [ip_request, get_request ?a ''a.example'']
         (put_request ?a ''a.example'' ''5.6.7.8 '') = Inl (External ''dial tcp4: i/o timeout'')"
    by (simp add: write_down_env_fields put_request_def)
  have g2: "getPublicIPAddress write_down_env empty_state = (Inr ''5.6.7.8 '', ?s1)"
    by (simp add: getPublicIPAddress_unfold write_down_env_fields example_Do_def ip_request_def
        TrimRight_def empty_state_def)
  have c2: "checkAndUpdate write_down_env ?a ''a.example'' ''5.6.7.8 '' ?s1
     = (Return None,
        \<lparr>calls = [ip_request, get_request ?a ''a.example'', put_request ?a ''a.example'' ''5.6.7.8 ''],
         logs = [Log DebugLevel ''oldIP: %s; newIP: %s'' [S ''1.2.3.4'', S ''5.6.7.8 '']]\<rparr>)"
    by (simp add: checkAndUpdate_def getDomainAtRecordIP_unfold setDomainAtRecord_unfold
        write_down_env_fields example_Do_def example_Unmarshal_def get_request_def
        put_request_def example_urls log_def)
  have w: "loopFunc write_down_env ?a empty_state
     = (Return (),
        \<lparr>calls = [ip_request, get_request ?a ''a.example'', put_request ?a ''a.example'' ''5.6.7.8 ''],
         logs = [Log DebugLevel ''oldIP: %s; newIP: %s'' [S ''1.2.3.4'', S ''5.6.7.8 ''],
                 Log InfoLevel ''Update successful at %v'' [TimeNow],
                 Log InfoLevel ''Next update at %v'' [TimeNext]]\<rparr>)"
    by (simp add: loopFunc_def g2 domains_example_cfg c2 report_def log_def)
  from p d w show ?thesis by simp
qed

subsection \<open>Where the older version differs\<close>

text \<open>
  The spec follows the newer version. The older one returns the transport error of a
  write, stops its writes at the first domain that fails, and with an empty cache reads
  the records before it resolves the public address.
\<close>

lemma updateDNSEntriesIP_transport_failure_returns_error:
  "fst (updateDNSEntriesIP transport_down cfg ipaddr s)
     = (if domains cfg = [] then None else Some (External ''dial tcp4: i/o timeout''))"
  by (cases "domains cfg")
     (simp_all add: updateDNSEntriesIP_def updateDNSEntriesIP_range_Cons transport_down_def
        del: updateDNSEntriesIP_range.simps(2))

lemma updateDNSEntriesIP_stops_at_first_failure:
  "updateDNSEntriesIP_range example_env (example_cfg [''denied.example'', ''a.example'']) ''5.6.7.8''
       [''denied.example'', ''a.example''] empty_state
     = (Some (Errorf ''updating dns record for domain %s failed with status code %d: %s''
                [S ''denied.example'', D 403, S ''ACCESS_DENIED'']),
        \<lparr>calls = [put_request_cached example_env (example_cfg [''denied.example'', ''a.example''])
                    ''5.6.7.8'' ''denied.example''],
         logs = []\<rparr>)"
proof -
  have u: "url_parse example_env u = None" for u by (simp add: example_env_def)
  have d: "client_Do example_env = example_Do" by (simp add: example_env_def)
  show ?thesis
    by (simp add: updateDNSEntriesIP_range_Cons u d put_request_cached_example example_Do_def
        example_urls empty_state_def del: updateDNSEntriesIP_range.simps(2))
qed

lemma updateRecords_reads_before_resolving:
  "updateRecords (example_env\<lparr>client_Do := (\<lambda>hist req.
        if Url req = ''https://api.ipify.org'' then Inl (External ''dial tcp4: i/o timeout'')
        else example_Do hist req)\<rparr>) (example_cfg [''a.example'']) [] empty_state
     = (Return (Some (Errorf ''failed to get public Data address: %v''
                        [V (External ''dial tcp4: i/o timeout'')])),
        ''1.2.3.4'',
        \<lparr>calls = [get_request (example_cfg [''a.example'']) ''a.example'',
                  \<lparr>Method = GET, Url = ''https://api.ipify.org'', Header = [], ReqBody = NoBody\<rparr>],
         logs = []\<rparr>)"
  by (simp add: updateRecords_def updateRecords_compare_def getDNSEntriesIP_def getDNSEntry_def
      getPublicIPAddress_cached_def NewRequestWithContext_def Do_def Header_Set_def
      example_env_def example_cfg_def empty_state_def example_Do_def example_Unmarshal_def
      get_request_def example_urls)

end
